theory Spec2Isabelle
  imports Main "HOL-Library.Word"
begin

section \<open>The asset catalogue of \<open>pkg/model/assets.go\<close>\<close>

text \<open>
  The file \<open>assets.go\<close> is a data-access layer: every operation sends one or a few SQL
  statements to a relational store through the \<open>pgx\<close> driver, or reads and writes a
  key-value cache, and wraps the answer in Go error handling. The embedding below keeps
  the Go control flow of each operation (its branches, loops, early returns and the
  variables that live across loop iterations) and replaces the store by a record of
  tables on which each SQL statement is a function.

  Conventions.
  \<^item> A Go function returning \<open>(v, err)\<close> is a function returning a pair whose last
    component is an \<open>error option\<close>, \<open>None\<close> for \<open>nil\<close>: Go returns both components on
    every path, and several operations return a partly filled value beside the error.
  \<^item> An operation that writes takes the store and returns the new store first.
  \<^item> A table is a list of rows in the order in which the store returns them.
  \<^item> A text column is a \<open>string option\<close>, \<open>None\<close> for SQL \<open>NULL\<close>: scanning \<open>NULL\<close>
    into a Go \<open>string\<close> is the row-scan error of the driver. Identifier columns read
    through \<open>pgtype.UUID\<close> are \<open>string option\<close> as well. Asset identifiers are opaque
    strings; the input syntax of the store's uuid type is not part of the model.
  \<^item> The connection is up or down for a whole call (\<open>pg_up\<close>, \<open>redis_up\<close>); when it is
    down every statement of the call fails with \<open>ConnectionError\<close>.
\<close>

subsection \<open>Errors\<close>

datatype error =
    ConnectionError          \<comment> \<open>the store or the cache cannot be reached\<close>
  | ErrNoRows                \<comment> \<open>\<open>pgx.ErrNoRows\<close>: \<open>QueryRow(...).Scan\<close> found no row\<close>
  | ScanArgError             \<comment> \<open>\<open>rows.Scan\<close> could not assign a column\<close>
  | NumError                 \<comment> \<open>\<open>strconv.Atoi\<close> rejected its argument\<close>
  | SqlSyntaxError           \<comment> \<open>the store rejected the statement text\<close>
  | ErrorsNew string         \<comment> \<open>\<open>errors.New(msg)\<close>\<close>
  | PanicIndexOutOfRange     \<comment> \<open>a slice index out of range (a Go panic)\<close>
  | PanicTypeAssertion       \<comment> \<open>a failed type assertion (a Go panic)\<close>

subsection \<open>Go library functions used by the file\<close>

text \<open>
  \<open>strconv.Atoi\<close> on a 64-bit platform: an optional sign, then one or more decimal digits
  and nothing else; the value must fit \<open>int64\<close>.
\<close>

definition is_digit :: "char \<Rightarrow> bool" where
  "is_digit c = (48 \<le> (of_char c :: nat) \<and> (of_char c :: nat) \<le> 57)"

definition digit_val :: "char \<Rightarrow> nat" where
  "digit_val c = of_char c - 48"

definition digits_val :: "string \<Rightarrow> nat" where
  "digits_val ds = foldl (\<lambda>n ch. n * 10 + digit_val ch) 0 ds"

definition Atoi :: "string \<Rightarrow> int option" where
  "Atoi s =
     (let neg = (s \<noteq> [] \<and> hd s = CHR ''-'');
          ds = (if s \<noteq> [] \<and> (hd s = CHR ''-'' \<or> hd s = CHR ''+'') then tl s else s)
      in if ds = [] \<or> \<not> list_all is_digit ds then None
         else let n = int (digits_val ds); v = (if neg then - n else n)
              in if v < - (2 ^ 63) \<or> 2 ^ 63 \<le> v then None else Some v)"

text \<open>The conversion \<open>uint8(decimalsInt)\<close> keeps the low eight bits.\<close>

definition uint8 :: "int \<Rightarrow> 8 word" where
  "uint8 n = word_of_int n"

text \<open>\<open>strconv.Itoa\<close> and the verb \<open>%d\<close> on a non-negative number.\<close>

definition digit_char :: "nat \<Rightarrow> char" where
  "digit_char d = char_of (48 + d)"

fun Itoa :: "nat \<Rightarrow> string" where
  "Itoa n = (if n < 10 then [digit_char n] else Itoa (n div 10) @ [digit_char (n mod 10)])"

declare Itoa.simps [simp del]

subsection \<open>The Go value types\<close>

text \<open>\<open>dia.Asset\<close>, \<open>dia.Pair\<close> and \<open>dia.ExchangePair\<close>, with the fields the file uses.\<close>

record Asset =
  Symbol :: string
  Name :: string
  Address :: string
  Decimals :: "8 word"
  Blockchain :: string

definition zero_Asset :: Asset where
  "zero_Asset = \<lparr>Symbol = [], Name = [], Address = [], Decimals = 0, Blockchain = []\<rparr>"

record Pair =
  QuoteToken :: Asset
  BaseToken :: Asset

record ExchangePair =
  PairSymbol :: string
  ForeignName :: string
  Exchange :: string
  Verified :: bool
  UnderlyingPair :: Pair

definition zero_ExchangePair :: ExchangePair where
  "zero_ExchangePair =
     \<lparr>PairSymbol = [], ForeignName = [], Exchange = [], Verified = False,
      UnderlyingPair = \<lparr>QuoteToken = zero_Asset, BaseToken = zero_Asset\<rparr>\<rparr>"

subsection \<open>The store\<close>

record asset_row =
  a_asset_id :: string
  a_symbol :: "string option"
  a_name :: "string option"
  a_address :: "string option"
  a_decimals :: "string option"
  a_blockchain :: "string option"

record exchangesymbol_row =
  es_symbol :: string
  es_exchange :: string
  es_verified :: bool
  es_asset_id :: "string option"

record exchangepair_row =
  ep_symbol :: string
  ep_foreignname :: string
  ep_exchange :: string
  ep_verified :: bool
  ep_id_quotetoken :: "string option"
  ep_id_basetoken :: "string option"

datatype cached = CachedAsset Asset | CachedExchangePair ExchangePair

record RelDB =
  assetTable :: "asset_row list"
  exchangesymbolTable :: "exchangesymbol_row list"
  exchangepairTable :: "exchangepair_row list"
  redis :: "string \<rightharpoonup> cached"
  pg_up :: bool
  redis_up :: bool
  rdb_pagesize :: "32 word"

subsection \<open>The driver: queries and row scans\<close>

text \<open>
  \<open>Query\<close> on the asset table with a filter: the rows that satisfy it, in table order,
  or the transport error.
\<close>

definition Query_asset :: "RelDB \<Rightarrow> (asset_row \<Rightarrow> bool) \<Rightarrow> error + asset_row list" where
  "Query_asset db cond = (if pg_up db then Inr (filter cond (assetTable db)) else Inl ConnectionError)"

text \<open>\<open>QueryRow\<close>: the first row of the result; its \<open>Scan\<close> reports \<open>ErrNoRows\<close> when there is none.\<close>

definition QueryRow_asset :: "RelDB \<Rightarrow> (asset_row \<Rightarrow> bool) \<Rightarrow> error + asset_row" where
  "QueryRow_asset db cond =
     (case Query_asset db cond of
        Inl e \<Rightarrow> Inl e
      | Inr [] \<Rightarrow> Inl ErrNoRows
      | Inr (r # rs) \<Rightarrow> Inr r)"

text \<open>
  \<open>rows.Scan(dest...)\<close> assigns the columns from left to right and stops at the first
  one it cannot assign, leaving the destinations before it written. A column is paired
  with the assignment to its destination; \<open>'s\<close> is the tuple of Go variables scanned into.
\<close>

fun Scan :: "(string option \<times> (string \<Rightarrow> 's \<Rightarrow> 's)) list \<Rightarrow> 's \<Rightarrow> 's \<times> error option" where
  "Scan [] s = (s, None)"
| "Scan ((None, put) # cs) s = (s, Some ScanArgError)"
| "Scan ((Some v, put) # cs) s = Scan cs (put v s)"

text \<open>The five-column scan \<open>Scan(&asset.Symbol, &asset.Name, &asset.Address, &decimals, &asset.Blockchain)\<close>.\<close>

definition Scan_asset5 :: "asset_row \<Rightarrow> Asset \<times> string \<Rightarrow> (Asset \<times> string) \<times> error option" where
  "Scan_asset5 r =
     Scan [(a_symbol r, \<lambda>v (a, d). (a\<lparr>Symbol := v\<rparr>, d)),
           (a_name r, \<lambda>v (a, d). (a\<lparr>Name := v\<rparr>, d)),
           (a_address r, \<lambda>v (a, d). (a\<lparr>Address := v\<rparr>, d)),
           (a_decimals r, \<lambda>v (a, d). (a, v)),
           (a_blockchain r, \<lambda>v (a, d). (a\<lparr>Blockchain := v\<rparr>, d))]"

subsection \<open>\<open>GetAssetsBySymbolName\<close>\<close>

text \<open>
  The loop \<open>for rows.Next() { ... }\<close> of \<open>GetAssetsBySymbolName\<close>. The variable
  \<open>decimals\<close> is declared before the loop and \<open>asset\<close> inside it; a scan error and a
  parse error both return at once with the assets collected so far.
\<close>

fun GetAssetsBySymbolName_loop ::
  "asset_row list \<Rightarrow> string \<Rightarrow> Asset list \<Rightarrow> Asset list \<times> error option" where
  "GetAssetsBySymbolName_loop [] decimals assets = (assets, None)"
| "GetAssetsBySymbolName_loop (r # rows) decimals assets =
     (case Scan_asset5 r (zero_Asset, decimals) of
        (_, Some err) \<Rightarrow> (assets, Some err)
      | ((asset, decimals'), None) \<Rightarrow>
          (case Atoi decimals' of
             None \<Rightarrow> (assets, Some NumError)
           | Some decimalsInt \<Rightarrow>
               GetAssetsBySymbolName_loop rows decimals'
                 (assets @ [asset\<lparr>Decimals := uint8 decimalsInt\<rparr>])))"

definition GetAssetsBySymbolName :: "RelDB \<Rightarrow> string \<Rightarrow> string \<Rightarrow> Asset list \<times> error option" where
  "GetAssetsBySymbolName db symbol' name' =
     (case (if name' = [] then Query_asset db (\<lambda>r. a_symbol r = Some symbol')
            else if symbol' = [] then Query_asset db (\<lambda>r. a_name r = Some name')
            else Query_asset db (\<lambda>r. a_symbol r = Some symbol' \<and> a_name r = Some name')) of
        Inl err \<Rightarrow> ([], Some err)
      | Inr rows \<Rightarrow> GetAssetsBySymbolName_loop rows [] [])"

subsection \<open>\<open>GetAssetID\<close>, \<open>GetKeyAsset\<close>, \<open>GetAssetByID\<close>\<close>

definition GetAssetID :: "RelDB \<Rightarrow> Asset \<Rightarrow> string \<times> error option" where
  "GetAssetID db asset =
     (case QueryRow_asset db
             (\<lambda>r. a_address r = Some (Address asset) \<and> a_blockchain r = Some (Blockchain asset)) of
        Inl err \<Rightarrow> ([], Some err)
      | Inr r \<Rightarrow> (a_asset_id r, None))"

text \<open>The constant \<open>keyAssetCache\<close> is declared in another file; it is a parameter here.\<close>

definition GetKeyAsset :: "string \<Rightarrow> RelDB \<Rightarrow> Asset \<Rightarrow> string \<times> error option" where
  "GetKeyAsset keyAssetCache db asset =
     (case GetAssetID db asset of
        (ID, Some err) \<Rightarrow> ([], Some err)
      | (ID, None) \<Rightarrow> (keyAssetCache @ ID, None))"

definition GetAssetByID :: "RelDB \<Rightarrow> string \<Rightarrow> Asset \<times> error option" where
  "GetAssetByID db assetID =
     (case QueryRow_asset db (\<lambda>r. a_asset_id r = assetID) of
        Inl err \<Rightarrow> (zero_Asset, Some err)
      | Inr r \<Rightarrow>
          (case Scan_asset5 r (zero_Asset, []) of
             ((asset, decimals), Some err) \<Rightarrow> (asset, Some err)
           | ((asset, decimals), None) \<Rightarrow>
               (case Atoi decimals of
                  None \<Rightarrow> (asset, Some NumError)
                | Some decimalsInt \<Rightarrow> (asset\<lparr>Decimals := uint8 decimalsInt\<rparr>, None))))"

subsection \<open>\<open>GetAllAssets\<close>\<close>

text \<open>The four-column scan \<open>Scan(&asset.Symbol, &asset.Name, &asset.Address, &decimals)\<close>.\<close>

definition Scan_asset4 :: "asset_row \<Rightarrow> Asset \<times> string \<Rightarrow> (Asset \<times> string) \<times> error option" where
  "Scan_asset4 r =
     Scan [(a_symbol r, \<lambda>v (a, d). (a\<lparr>Symbol := v\<rparr>, d)),
           (a_name r, \<lambda>v (a, d). (a\<lparr>Name := v\<rparr>, d)),
           (a_address r, \<lambda>v (a, d). (a\<lparr>Address := v\<rparr>, d)),
           (a_decimals r, \<lambda>v (a, d). (a, v))]"

text \<open>
  One pass through the loop body of \<open>GetAllAssets\<close> on the row \<open>r\<close>. The scan error is
  logged and the body goes on with whatever \<open>decimals\<close> then holds (the variable is
  declared before the loop, so it keeps the previous row's text when the scan stopped
  before its column). The driver closes the result set on a scan error, so the third
  component tells the loop that \<open>rows.Next()\<close> is false from now on.
\<close>

definition GetAllAssets_body ::
  "string \<Rightarrow> asset_row \<Rightarrow> string \<Rightarrow> Asset list \<Rightarrow> string \<times> Asset list \<times> bool" where
  "GetAllAssets_body blockchain' r decimals assets =
     (case Scan_asset4 r (zero_Asset, decimals) of
        ((asset, decimals'), err) \<Rightarrow>
          (case Atoi decimals' of
             None \<Rightarrow> (decimals', assets, err \<noteq> None)
           | Some decimalsInt \<Rightarrow>
               (decimals',
                assets @ [asset\<lparr>Decimals := uint8 decimalsInt, Blockchain := blockchain'\<rparr>],
                err \<noteq> None)))"

fun GetAllAssets_loop :: "string \<Rightarrow> asset_row list \<Rightarrow> string \<Rightarrow> Asset list \<Rightarrow> Asset list" where
  "GetAllAssets_loop blockchain' [] decimals assets = assets"
| "GetAllAssets_loop blockchain' (r # rows) decimals assets =
     (case GetAllAssets_body blockchain' r decimals assets of
        (decimals', assets', closed) \<Rightarrow>
          if closed then assets' else GetAllAssets_loop blockchain' rows decimals' assets')"

definition GetAllAssets :: "RelDB \<Rightarrow> string \<Rightarrow> Asset list \<times> error option" where
  "GetAllAssets db blockchain' =
     (case Query_asset db (\<lambda>r. a_blockchain r = Some blockchain') of
        Inl err \<Rightarrow> ([], Some err)
      | Inr rows \<Rightarrow> (GetAllAssets_loop blockchain' rows [] [], None))"

subsection \<open>\<open>IdentifyAsset\<close>\<close>

text \<open>
  \<open>IdentifyAsset\<close> and the updates of \<open>SetExchangePair\<close> do not pass their values as
  statement parameters: they write them into the statement text between single quotes,
  unescaped. A value without a single quote is read back by the store as itself. For a
  value with one the text is some other statement, which this development does not
  interpret: the model answers \<open>Uninterpreted\<close>, and every theorem on these operations
  assumes \<open>sql_plain\<close> of the values concerned.
\<close>

definition sql_plain :: "string \<Rightarrow> bool" where
  "sql_plain s = (CHR 0x27 \<notin> set s)"

datatype asset_col = ColSymbol | ColName | ColAddress | ColDecimals | ColBlockchain

fun col_of :: "asset_col \<Rightarrow> asset_row \<Rightarrow> string option" where
  "col_of ColSymbol r = a_symbol r"
| "col_of ColName r = a_name r"
| "col_of ColAddress r = a_address r"
| "col_of ColDecimals r = a_decimals r"
| "col_of ColBlockchain r = a_blockchain r"

text \<open>
  The statement \<open>select symbol,name,address,decimals,blockchain from asset where\<close>
  followed by the conditions \<open>col='value'\<close> joined by \<open>and\<close>. With no condition the text
  ends in \<open>where\<close> and the store rejects it.
\<close>

datatype query_error = Failed error | Uninterpreted

definition Query_asset_where ::
  "RelDB \<Rightarrow> (asset_col \<times> string) list \<Rightarrow> query_error + asset_row list" where
  "Query_asset_where db conds =
     (if \<not> pg_up db then Inl (Failed ConnectionError)
      else if conds = [] then Inl (Failed SqlSyntaxError)
      else if \<not> list_all (\<lambda>(c, v). sql_plain v) conds then Inl Uninterpreted
      else Inr (filter (\<lambda>r. list_all (\<lambda>(c, v). col_of c r = Some v) conds) (assetTable db)))"

text \<open>
  The loop of \<open>IdentifyAsset\<close>: a scan error returns; a parse error is logged and the
  row skipped (its \<open>err\<close> is a new variable of the loop body, so the function's own
  \<open>err\<close> stays \<open>nil\<close>).
\<close>

fun IdentifyAsset_loop ::
  "asset_row list \<Rightarrow> string \<Rightarrow> Asset list \<Rightarrow> Asset list \<times> error option" where
  "IdentifyAsset_loop [] decimals assets = (assets, None)"
| "IdentifyAsset_loop (r # rows) decimals assets =
     (case Scan_asset5 r (zero_Asset, decimals) of
        (_, Some err) \<Rightarrow> (assets, Some err)
      | ((asset, decimals'), None) \<Rightarrow>
          (case Atoi decimals' of
             None \<Rightarrow> IdentifyAsset_loop rows decimals' assets
           | Some intDecimals \<Rightarrow>
               IdentifyAsset_loop rows decimals' (assets @ [asset\<lparr>Decimals := uint8 intDecimals\<rparr>])))"

text \<open>
  The conditions are appended in the order of the source, each under the source's test.
  \<open>HexToAddressHex\<close> stands for \<open>common.HexToAddress(_).Hex()\<close> of go-ethereum, the
  checksummed spelling of an address; it is a parameter. The result is \<open>None\<close> beside
  \<open>Uninterpreted\<close>, and the Go pair otherwise.
\<close>

definition IdentifyAsset_conds :: "(string \<Rightarrow> string) \<Rightarrow> Asset \<Rightarrow> (asset_col \<times> string) list" where
  "IdentifyAsset_conds HexToAddressHex asset =
     (if Symbol asset \<noteq> [] then [(ColSymbol, Symbol asset)] else []) @
     (if Name asset \<noteq> [] then [(ColName, Name asset)] else []) @
     (if Address asset \<noteq> [] then [(ColAddress, HexToAddressHex (Address asset))] else []) @
     (if Decimals asset \<noteq> 0 then [(ColDecimals, Itoa (unat (Decimals asset)))] else []) @
     (if Blockchain asset \<noteq> [] then [(ColBlockchain, Blockchain asset)] else [])"

text \<open>
  The statement text itself, built as the source builds it, with the separator \<open>and\<close>
  empty until the first condition is written. It is the fixed head followed by the
  conditions above, each written \<open>col='value'\<close>, joined by \<open>and\<close>
  (lemma \<open>IdentifyAsset_query_conds\<close>).
\<close>

definition IdentifyAsset_query :: "(string \<Rightarrow> string) \<Rightarrow> Asset \<Rightarrow> string" where
  "IdentifyAsset_query HexToAddressHex asset =
     (let query = ''select symbol,name,address,decimals,blockchain from asset where '';
          and' = [];
          (query, and') = (if Symbol asset \<noteq> []
             then (query @ ''symbol='' @ [CHR 0x27] @ Symbol asset @ [CHR 0x27], '' and '')
             else (query, and'));
          (query, and') = (if Name asset \<noteq> []
             then (query @ and' @ ''name='' @ [CHR 0x27] @ Name asset @ [CHR 0x27], '' and '')
             else (query, and'));
          (query, and') = (if Address asset \<noteq> []
             then (query @ and' @ ''address='' @ [CHR 0x27] @ HexToAddressHex (Address asset) @ [CHR 0x27],
                   '' and '')
             else (query, and'));
          (query, and') = (if Decimals asset \<noteq> 0
             then (query @ and' @ ''decimals='' @ [CHR 0x27] @ Itoa (unat (Decimals asset)) @ [CHR 0x27],
                   '' and '')
             else (query, and'));
          query = (if Blockchain asset \<noteq> []
             then query @ and' @ ''blockchain='' @ [CHR 0x27] @ Blockchain asset @ [CHR 0x27]
             else query)
      in query)"

fun col_name :: "asset_col \<Rightarrow> string" where
  "col_name ColSymbol = ''symbol''"
| "col_name ColName = ''name''"
| "col_name ColAddress = ''address''"
| "col_name ColDecimals = ''decimals''"
| "col_name ColBlockchain = ''blockchain''"

definition render_cond :: "asset_col \<times> string \<Rightarrow> string" where
  "render_cond cv = col_name (fst cv) @ ''='' @ [CHR 0x27] @ snd cv @ [CHR 0x27]"

fun join_and :: "string list \<Rightarrow> string" where
  "join_and [] = []"
| "join_and [s] = s"
| "join_and (s # t # ss) = s @ '' and '' @ join_and (t # ss)"

definition IdentifyAsset ::
  "(string \<Rightarrow> string) \<Rightarrow> RelDB \<Rightarrow> Asset \<Rightarrow> (Asset list \<times> error option) option" where
  "IdentifyAsset HexToAddressHex db asset =
     (case Query_asset_where db (IdentifyAsset_conds HexToAddressHex asset) of
        Inl Uninterpreted \<Rightarrow> None
      | Inl (Failed err) \<Rightarrow> Some ([], Some err)
      | Inr rows \<Rightarrow> Some (IdentifyAsset_loop rows [] []))"

subsection \<open>The exchangesymbol table\<close>

text \<open>
  \<open>insert into exchangesymbol (symbol,exchange) select $1,$2 where not exists (select 1
  from exchangesymbol where symbol=$1 and exchange=$2)\<close>. A new row takes the column
  defaults: not verified, no asset.
\<close>

definition SetExchangeSymbol :: "RelDB \<Rightarrow> string \<Rightarrow> string \<Rightarrow> RelDB \<times> error option" where
  "SetExchangeSymbol db exchange symbol' =
     (if \<not> pg_up db then (db, Some ConnectionError)
      else if list_ex (\<lambda>r. es_symbol r = symbol' \<and> es_exchange r = exchange) (exchangesymbolTable db)
      then (db, None)
      else (db\<lparr>exchangesymbolTable := exchangesymbolTable db @
                 [\<lparr>es_symbol = symbol', es_exchange = exchange,
                   es_verified = False, es_asset_id = None\<rparr>]\<rparr>, None))"

text \<open>
  \<open>update exchangesymbol set verified=true,asset_id=$1 where symbol=$2 and exchange=$3\<close>.
  \<open>Exec\<close> answers with the command tag \<open>UPDATE n\<close>, \<open>n\<close> the number of rows updated.
\<close>

definition Exec_verify :: "RelDB \<Rightarrow> string \<Rightarrow> string \<Rightarrow> string \<Rightarrow> (RelDB \<times> string) \<times> error option" where
  "Exec_verify db assetID symbol' exchange =
     (if \<not> pg_up db then ((db, []), Some ConnectionError)
      else
        let hit = (\<lambda>r. es_symbol r = symbol' \<and> es_exchange r = exchange)
        in ((db\<lparr>exchangesymbolTable :=
                   map (\<lambda>r. if hit r then r\<lparr>es_verified := True, es_asset_id := Some assetID\<rparr> else r)
                     (exchangesymbolTable db)\<rparr>,
             ''UPDATE '' @ Itoa (length (filter hit (exchangesymbolTable db)))), None))"

text \<open>\<open>strings.Split(s, " ")\<close>.\<close>

fun Split_space :: "string \<Rightarrow> string list" where
  "Split_space [] = [[]]"
| "Split_space (c # cs) =
     (if c = CHR '' '' then [] # Split_space cs
      else (c # hd (Split_space cs)) # tl (Split_space cs))"

text \<open>The index \<open>respSlice[1]\<close> panics when the tag has no space.\<close>

definition VerifyExchangeSymbol ::
  "RelDB \<Rightarrow> string \<Rightarrow> string \<Rightarrow> string \<Rightarrow> RelDB \<times> bool \<times> error option" where
  "VerifyExchangeSymbol db exchange symbol' assetID =
     (case Exec_verify db assetID symbol' exchange of
        ((db', resp), Some err) \<Rightarrow> (db', False, Some err)
      | ((db', resp), None) \<Rightarrow>
          (let respSlice = Split_space resp
           in if length respSlice \<le> 1 then (db', False, Some PanicIndexOutOfRange)
              else let numUpdates = respSlice ! 1
                   in (db', numUpdates \<noteq> ''0'', None)))"

text \<open>
  \<open>select asset_id, verified from exchangesymbol where symbol=$1 and exchange=$2\<close>, first
  row. A null \<open>asset_id\<close> leaves \<open>assetID\<close> empty.
\<close>

definition GetExchangeSymbolAssetID :: "RelDB \<Rightarrow> string \<Rightarrow> string \<Rightarrow> string \<times> bool \<times> error option" where
  "GetExchangeSymbolAssetID db exchange symbol' =
     (if \<not> pg_up db then ([], False, Some ConnectionError)
      else
        (case filter (\<lambda>r. es_symbol r = symbol' \<and> es_exchange r = exchange) (exchangesymbolTable db) of
           [] \<Rightarrow> ([], False, Some ErrNoRows)
         | r # _ \<Rightarrow>
             (let uuid = es_asset_id r; verified = es_verified r
              in (case uuid of None \<Rightarrow> [] | Some val \<Rightarrow> val, verified, None))))"

subsection \<open>The exchangepair table\<close>

text \<open>
  \<open>select symbol,verified,id_quotetoken,id_basetoken from exchangepair where exchange=$1
  and foreignname=$2\<close>, first row.
\<close>

definition QueryRow_exchangepair :: "RelDB \<Rightarrow> string \<Rightarrow> string \<Rightarrow> error + exchangepair_row" where
  "QueryRow_exchangepair db exchange foreignname =
     (if \<not> pg_up db then Inl ConnectionError
      else
        (case filter (\<lambda>r. ep_exchange r = exchange \<and> ep_foreignname r = foreignname)
                (exchangepairTable db) of
           [] \<Rightarrow> Inl ErrNoRows
         | r # _ \<Rightarrow> Inr r))"

definition GetExchangePair :: "RelDB \<Rightarrow> string \<Rightarrow> string \<Rightarrow> ExchangePair \<times> error option" where
  "GetExchangePair db exchange foreignname =
     (let exchangepair = zero_ExchangePair\<lparr>Exchange := exchange, ForeignName := foreignname\<rparr>
      in case QueryRow_exchangepair db exchange foreignname of
           Inl err \<Rightarrow> (zero_ExchangePair, Some err)
         | Inr r \<Rightarrow>
            (let exchangepair = exchangepair\<lparr>PairSymbol := ep_symbol r, Verified := ep_verified r\<rparr>;
                 val1 = ep_id_quotetoken r;
                 val2 = ep_id_basetoken r
             in case (case val1 of
                        None \<Rightarrow> (exchangepair, None)
                      | Some id1 \<Rightarrow>
                          (case GetAssetByID db id1 of
                             (quotetoken, Some err) \<Rightarrow> (zero_ExchangePair, Some err)
                           | (quotetoken, None) \<Rightarrow>
                               (exchangepair\<lparr>UnderlyingPair :=
                                  (UnderlyingPair exchangepair)\<lparr>QuoteToken := quotetoken\<rparr>\<rparr>, None))) of
                  (_, Some err) \<Rightarrow> (zero_ExchangePair, Some err)
                | (exchangepair, None) \<Rightarrow>
                    (case val2 of
                       None \<Rightarrow> (exchangepair, None)
                     | Some id2 \<Rightarrow>
                         (case GetAssetByID db id2 of
                            (basetoken, Some err) \<Rightarrow> (zero_ExchangePair, Some err)
                          | (basetoken, None) \<Rightarrow>
                              (exchangepair\<lparr>UnderlyingPair :=
                                 (UnderlyingPair exchangepair)\<lparr>BaseToken := basetoken\<rparr>\<rparr>, None)))))"

text \<open>
  \<open>insert into exchangepair (symbol,foreignname,exchange) select $1,$2,$3 where not exists
  (select 1 from exchangepair where symbol=$1 and foreignname=$2 and exchange=$3)\<close>.
  A new row takes the column defaults.
\<close>

definition Exec_insert_exchangepair :: "RelDB \<Rightarrow> string \<Rightarrow> string \<Rightarrow> string \<Rightarrow> RelDB \<times> error option" where
  "Exec_insert_exchangepair db symbol' foreignname exchange =
     (if \<not> pg_up db then (db, Some ConnectionError)
      else if list_ex (\<lambda>r. ep_symbol r = symbol' \<and> ep_foreignname r = foreignname \<and> ep_exchange r = exchange)
                (exchangepairTable db)
      then (db, None)
      else (db\<lparr>exchangepairTable := exchangepairTable db @
                 [\<lparr>ep_symbol = symbol', ep_foreignname = foreignname, ep_exchange = exchange,
                   ep_verified = False, ep_id_quotetoken = None, ep_id_basetoken = None\<rparr>]\<rparr>, None))"

text \<open>
  \<open>update exchangepair set <column>='<value>' where foreignname='<foreignname>' and
  exchange='<exchange>'\<close>, the three values written into the text. \<open>upd\<close> is the
  assignment to the column.
\<close>

definition Exec_update_exchangepair ::
  "RelDB \<Rightarrow> (exchangepair_row \<Rightarrow> exchangepair_row) \<Rightarrow> string \<Rightarrow> string \<Rightarrow> string
     \<Rightarrow> query_error + RelDB" where
  "Exec_update_exchangepair db upd value foreignname exchange =
     (if \<not> pg_up db then Inl (Failed ConnectionError)
      else if \<not> (sql_plain value \<and> sql_plain foreignname \<and> sql_plain exchange) then Inl Uninterpreted
      else Inr (db\<lparr>exchangepairTable :=
                  map (\<lambda>r. if ep_foreignname r = foreignname \<and> ep_exchange r = exchange
                           then upd r else r) (exchangepairTable db)\<rparr>))"

text \<open>The cache: \<open>redisClient.Set(key, value, 0)\<close>.\<close>

definition redis_Set :: "RelDB \<Rightarrow> string \<Rightarrow> cached \<Rightarrow> RelDB \<times> error option" where
  "redis_Set db key v =
     (if redis_up db then (db\<lparr>redis := (redis db)(key \<mapsto> v)\<rparr>, None)
      else (db, Some ConnectionError))"

text \<open>The constant \<open>keyExchangePairCache\<close> is declared in another file; it is a parameter here.\<close>

definition SetExchangePairCache :: "string \<Rightarrow> RelDB \<Rightarrow> string \<Rightarrow> ExchangePair \<Rightarrow> RelDB \<times> error option" where
  "SetExchangePairCache keyExchangePairCache db exchange pair =
     (let key = keyExchangePairCache @ exchange @ ''_'' @ ForeignName pair
      in redis_Set db key (CachedExchangePair pair))"

text \<open>The verb \<open>%v\<close> on a \<open>bool\<close>.\<close>

definition fmt_bool :: "bool \<Rightarrow> string" where
  "fmt_bool b = (if b then ''true'' else ''false'')"

text \<open>
  \<open>SetExchangePair\<close>. The two errors of \<open>GetAssetID\<close> are logged only. The result is
  \<open>None\<close> when one of the updates is outside the interpreted statements, and the store
  with the Go error otherwise.
\<close>

definition SetExchangePair ::
  "string \<Rightarrow> RelDB \<Rightarrow> string \<Rightarrow> ExchangePair \<Rightarrow> bool \<Rightarrow> (RelDB \<times> error option) option" where
  "SetExchangePair keyExchangePairCache db exchange pair cache =
     (case Exec_insert_exchangepair db (PairSymbol pair) (ForeignName pair) exchange of
        (db1, Some err) \<Rightarrow> Some (db1, Some err)
      | (db1, None) \<Rightarrow>
         (let basetokenID = fst (GetAssetID db1 (BaseToken (UnderlyingPair pair)));
              quotetokenID = fst (GetAssetID db1 (QuoteToken (UnderlyingPair pair)))
          in case (if basetokenID \<noteq> []
                   then Exec_update_exchangepair db1 (\<lambda>r. r\<lparr>ep_id_basetoken := Some basetokenID\<rparr>)
                          basetokenID (ForeignName pair) exchange
                   else Inr db1) of
               Inl Uninterpreted \<Rightarrow> None
             | Inl (Failed err) \<Rightarrow> Some (db1, Some err)
             | Inr db2 \<Rightarrow>
                (case (if quotetokenID \<noteq> []
                       then Exec_update_exchangepair db2 (\<lambda>r. r\<lparr>ep_id_quotetoken := Some quotetokenID\<rparr>)
                              quotetokenID (ForeignName pair) exchange
                       else Inr db2) of
                   Inl Uninterpreted \<Rightarrow> None
                 | Inl (Failed err) \<Rightarrow> Some (db2, Some err)
                 | Inr db3 \<Rightarrow>
                    (case Exec_update_exchangepair db3 (\<lambda>r. r\<lparr>ep_verified := Verified pair\<rparr>)
                            (fmt_bool (Verified pair)) (ForeignName pair) exchange of
                       Inl Uninterpreted \<Rightarrow> None
                     | Inl (Failed err) \<Rightarrow> Some (db3, Some err)
                     | Inr db4 \<Rightarrow>
                         if cache
                         then Some (fst (SetExchangePairCache keyExchangePairCache db4 exchange pair), None)
                         else Some (db4, None)))))"

subsection \<open>The asset cache\<close>

definition SetAssetCache :: "string \<Rightarrow> RelDB \<Rightarrow> Asset \<Rightarrow> RelDB \<times> error option" where
  "SetAssetCache keyAssetCache db asset =
     (case GetKeyAsset keyAssetCache db asset of
        (key, Some err) \<Rightarrow> (db, Some err)
      | (key, None) \<Rightarrow> redis_Set db key (CachedAsset asset))"

subsection \<open>\<open>GetPage\<close>\<close>

text \<open>
  \<open>GetPage\<close> reads the driver's result set beyond \<open>Next\<close> and \<open>Scan\<close>, so the result set
  is a value here: the rows not yet read and the row \<open>Next\<close> read last. In pgx v4
  \<open>Next\<close> stores the column values of the row it reads and leaves them in place when it
  reaches the end, and \<open>RawValues\<close> returns those stored values: one byte slice per
  column of the current row, and \<open>nil\<close> before the first \<open>Next\<close>.
\<close>

record Rows =
  pending :: "asset_row list"
  current :: "asset_row option"

definition Rows_Next :: "Rows \<Rightarrow> bool \<times> Rows" where
  "Rows_Next rows =
     (case pending rows of
        [] \<Rightarrow> (False, rows)
      | r # rs \<Rightarrow> (True, \<lparr>pending = rs, current = Some r\<rparr>))"

definition RawValues :: "Rows \<Rightarrow> string option list" where
  "RawValues rows =
     (case current rows of
        None \<Rightarrow> []
      | Some r \<Rightarrow> [a_symbol r, a_name r, a_address r, a_decimals r, a_blockchain r])"

text \<open>
  \<open>select symbol,name,address,decimals,blockchain from asset LIMIT $1 OFFSET $2\<close>. On a
  transport error the driver still hands back a result set, an empty one.
\<close>

definition Query_asset_page :: "RelDB \<Rightarrow> 32 word \<Rightarrow> 32 word \<Rightarrow> Rows \<times> error option" where
  "Query_asset_page db limit offset =
     (if pg_up db
      then (\<lparr>pending = take (unat limit) (drop (unat offset) (assetTable db)), current = None\<rparr>, None)
      else (\<lparr>pending = [], current = None\<rparr>, Some ConnectionError))"

text \<open>
  \<open>Scan(&asset.Symbol, &asset.Name, &asset.Address, &asset.Decimals, &asset.Blockchain)\<close>:
  here the fourth destination is the \<open>uint8\<close> field itself. How the driver converts the
  column to it is the parameter \<open>scan_uint8\<close> (\<open>None\<close>: it cannot). The loop returns on
  a scan error, so a partly written \<open>asset\<close> is never seen and the scan is all or nothing.
\<close>

definition Scan_page :: "(string \<Rightarrow> 8 word option) \<Rightarrow> asset_row \<Rightarrow> Asset \<times> error option" where
  "Scan_page scan_uint8 r =
     (case (a_symbol r, a_name r, a_address r, a_decimals r, a_blockchain r) of
        (Some s, Some n, Some a, Some d, Some b) \<Rightarrow>
          (case scan_uint8 d of
             None \<Rightarrow> (zero_Asset, Some ScanArgError)
           | Some dec \<Rightarrow>
               (\<lparr>Symbol = s, Name = n, Address = a, Decimals = dec, Blockchain = b\<rparr>, None))
      | _ \<Rightarrow> (zero_Asset, Some ScanArgError))"

function GetPage_loop ::
  "(string \<Rightarrow> 8 word option) \<Rightarrow> Rows \<Rightarrow> Asset list \<Rightarrow> Rows \<times> Asset list \<times> error option" where
  "GetPage_loop scan_uint8 rows assets =
     (case Rows_Next rows of
        (False, rows') \<Rightarrow> (rows', assets, None)
      | (True, rows') \<Rightarrow>
          (case current rows' of
             None \<Rightarrow> (rows', assets, Some ScanArgError)
           | Some r \<Rightarrow>
               (case Scan_page scan_uint8 r of
                  (asset, Some err) \<Rightarrow> (rows', assets, Some err)
                | (asset, None) \<Rightarrow> GetPage_loop scan_uint8 rows' (assets @ [asset]))))"
  by pat_completeness auto
termination
  by (relation "measure (\<lambda>(f, rows, assets). length (pending rows))")
     (auto simp: Rows_Next_def split: list.splits)

declare GetPage_loop.simps [simp del]

text \<open>
  \<open>GetPage\<close>. \<open>skip\<close> is a \<open>uint32\<close> product and wraps; \<open>int(pagesize)\<close> is the same number
  on a 64-bit platform.
\<close>

definition GetPage ::
  "(string \<Rightarrow> 8 word option) \<Rightarrow> RelDB \<Rightarrow> 32 word \<Rightarrow> Asset list \<times> bool \<times> error option" where
  "GetPage scan_uint8 db pageNumber =
     (let pagesize = rdb_pagesize db;
          skip = pagesize * pageNumber
      in case Query_asset_page db pagesize skip of
           (rows, Some err) \<Rightarrow> ([], False, Some err)
         | (rows, None) \<Rightarrow>
            (case GetPage_loop scan_uint8 rows [] of
               (rows', assets, Some err) \<Rightarrow> (assets, False, Some err)
             | (rows', assets, None) \<Rightarrow>
                 if length (RawValues rows') < unat pagesize then (assets, False, None)
                 else
                   (case Query_asset_page db pagesize (skip + 1) of
                      (nextPageRows, err) \<Rightarrow>
                        if length (RawValues nextPageRows) = 0 then (assets, False, err)
                        else (assets, True, err))))"

subsection \<open>\<open>GetAssetsWithVOLInflux\<close>\<close>

text \<open>
  The answer of the time-series store: a list of results, each a list of series, each
  with its rows of values. A value is an \<open>interface{}\<close> decoded from JSON.
\<close>

datatype jvalue = JNil | JString string | JNumber int | JBool bool

record Row =
  Values :: "jvalue list list"

record Result =
  Series :: "Row list"

text \<open>
  The loop over \<open>res[0].Series[0].Values\<close>. \<open>asset\<close> is declared before the loop, so it
  is threaded through; only its \<open>Address\<close> and \<open>Blockchain\<close> are ever assigned. An index
  out of range and a failed type assertion are panics.
\<close>

fun GetAssetsWithVOLInflux_loop ::
  "jvalue list list \<Rightarrow> Asset \<Rightarrow> Asset list \<Rightarrow> Asset set \<Rightarrow> Asset list \<times> error option" where
  "GetAssetsWithVOLInflux_loop [] asset quotedAssets uniqueMap = (quotedAssets, None)"
| "GetAssetsWithVOLInflux_loop (val # vals) asset quotedAssets uniqueMap =
     (if length val \<le> 1 then ([], Some PanicIndexOutOfRange)
      else if val ! 1 = JNil then GetAssetsWithVOLInflux_loop vals asset quotedAssets uniqueMap
      else if length val \<le> 2 then ([], Some PanicIndexOutOfRange)
      else if val ! 2 = JNil then GetAssetsWithVOLInflux_loop vals asset quotedAssets uniqueMap
      else
        (case val ! 1 of
           JString addr \<Rightarrow>
             (case val ! 2 of
                JString chain \<Rightarrow>
                  (let asset' = asset\<lparr>Address := addr, Blockchain := chain\<rparr>
                   in if asset' \<in> uniqueMap
                      then GetAssetsWithVOLInflux_loop vals asset' quotedAssets uniqueMap
                      else GetAssetsWithVOLInflux_loop vals asset' (quotedAssets @ [asset'])
                             (insert asset' uniqueMap))
              | _ \<Rightarrow> ([], Some PanicTypeAssertion))
         | _ \<Rightarrow> ([], Some PanicTypeAssertion)))"

text \<open>The verb \<open>%d\<close> on an \<open>int64\<close>.\<close>

definition fmt_int64 :: "64 word \<Rightarrow> string" where
  "fmt_int64 w = (if sint w < 0 then CHR ''-'' # Itoa (nat (- sint w)) else Itoa (nat (sint w)))"

text \<open>
  \<open>queryInfluxDB\<close> and the constant \<open>influxDbFiltersTable\<close> are declared in other files;
  they are parameters. \<open>timeInit\<close> is given by its \<open>UnixNano()\<close>.
\<close>

definition VOLInflux_query :: "string \<Rightarrow> 64 word \<Rightarrow> string" where
  "VOLInflux_query influxDbFiltersTable timeInit =
     ''SELECT address,blockchain,value FROM '' @ influxDbFiltersTable @
     '' WHERE filter='' @ [CHR 0x27] @ ''VOL120'' @ [CHR 0x27] @
     '' AND exchange='' @ [CHR 0x27, CHR 0x27] @
     '' AND time>'' @ fmt_int64 timeInit @ '' and time<now()''"

definition GetAssetsWithVOLInflux ::
  "(string \<Rightarrow> Result list \<times> error option) \<Rightarrow> string \<Rightarrow> 64 word \<Rightarrow> Asset list \<times> error option" where
  "GetAssetsWithVOLInflux queryInfluxDB influxDbFiltersTable timeInit =
     (let q = VOLInflux_query influxDbFiltersTable timeInit
      in case queryInfluxDB q of
           (res, Some err) \<Rightarrow> ([], Some err)
         | (res, None) \<Rightarrow>
             if length res > 0 \<and> length (Series (res ! 0)) > 0
             then
               if length (Values (Series (res ! 0) ! 0)) > 0
               then GetAssetsWithVOLInflux_loop (Values (Series (res ! 0) ! 0)) zero_Asset [] {}
               else ([], Some (ErrorsNew ''no recent assets with volume in influx''))
             else ([], Some (ErrorsNew ''no recent asset with volume in influx'')))"

subsection \<open>What a row denotes\<close>

text \<open>
  A row of the asset table scans when none of its five columns is null, and it denotes
  an asset when moreover its \<open>decimals\<close> text is a number: the asset with the row's
  columns and the low eight bits of that number.
\<close>

definition row_scans :: "asset_row \<Rightarrow> bool" where
  "row_scans r =
     (a_symbol r \<noteq> None \<and> a_name r \<noteq> None \<and> a_address r \<noteq> None \<and>
      a_decimals r \<noteq> None \<and> a_blockchain r \<noteq> None)"

definition row_Asset :: "asset_row \<Rightarrow> Asset option" where
  "row_Asset r =
     (case (a_symbol r, a_name r, a_address r, a_decimals r, a_blockchain r) of
        (Some s, Some n, Some a, Some d, Some b) \<Rightarrow>
          (case Atoi d of
             None \<Rightarrow> None
           | Some k \<Rightarrow>
               Some \<lparr>Symbol = s, Name = n, Address = a, Decimals = uint8 k, Blockchain = b\<rparr>)
      | _ \<Rightarrow> None)"

text \<open>Every row of the asset table scans; every row denotes an asset.\<close>

definition table_scans :: "RelDB \<Rightarrow> bool" where
  "table_scans db = list_all row_scans (assetTable db)"

definition table_decodes :: "RelDB \<Rightarrow> bool" where
  "table_decodes db = list_all (\<lambda>r. row_Asset r \<noteq> None) (assetTable db)"

text \<open>No pair of symbol and exchange is on two rows of the exchangesymbol table.\<close>

definition symbols_unique :: "RelDB \<Rightarrow> bool" where
  "symbols_unique db = distinct (map (\<lambda>r. (es_symbol r, es_exchange r)) (exchangesymbolTable db))"

subsection \<open>Example stores\<close>

definition row_WBTC :: asset_row where
  "row_WBTC = \<lparr>a_asset_id = ''id-wbtc'', a_symbol = Some ''WBTC'', a_name = Some ''Wrapped BTC'',
               a_address = Some ''0xabc'', a_decimals = Some ''8'', a_blockchain = Some ''Ethereum''\<rparr>"

definition row_USDC :: asset_row where
  "row_USDC = \<lparr>a_asset_id = ''id-usdc'', a_symbol = Some ''USDC'', a_name = Some ''USD Coin'',
               a_address = Some ''0xdef'', a_decimals = Some ''6'', a_blockchain = Some ''Ethereum''\<rparr>"

definition asset_WBTC :: Asset where
  "asset_WBTC = \<lparr>Symbol = ''WBTC'', Name = ''Wrapped BTC'', Address = ''0xabc'', Decimals = 8,
                 Blockchain = ''Ethereum''\<rparr>"

definition asset_USDC :: Asset where
  "asset_USDC = \<lparr>Symbol = ''USDC'', Name = ''USD Coin'', Address = ''0xdef'', Decimals = 6,
                 Blockchain = ''Ethereum''\<rparr>"

definition db_empty :: RelDB where
  "db_empty = \<lparr>assetTable = [], exchangesymbolTable = [], exchangepairTable = [],
               redis = Map.empty, pg_up = True, redis_up = True, rdb_pagesize = 1\<rparr>"

definition db_two_assets :: RelDB where
  "db_two_assets = db_empty\<lparr>assetTable := [row_WBTC, row_USDC]\<rparr>"

definition row_XYZ :: asset_row where
  "row_XYZ = \<lparr>a_asset_id = ''id-xyz'', a_symbol = Some ''XYZ'', a_name = Some ''Xyz'',
              a_address = Some ''0x123'', a_decimals = Some ''eight'', a_blockchain = Some ''Ethereum''\<rparr>"

definition db_three_assets :: RelDB where
  "db_three_assets = db_empty\<lparr>assetTable := [row_WBTC, row_XYZ, row_USDC]\<rparr>"

definition candidate_WBTC :: Asset where
  "candidate_WBTC = zero_Asset\<lparr>Symbol := ''WBTC''\<rparr>"

definition candidate_six :: Asset where
  "candidate_six = zero_Asset\<lparr>Decimals := 6, Blockchain := ''Ethereum''\<rparr>"

definition row_null :: asset_row where
  "row_null = \<lparr>a_asset_id = ''id-null'', a_symbol = Some ''NUL'', a_name = None,
               a_address = Some ''0x456'', a_decimals = Some ''18'', a_blockchain = Some ''Ethereum''\<rparr>"

definition db_null_row :: RelDB where
  "db_null_row = db_empty\<lparr>assetTable := [row_WBTC, row_USDC, row_null]\<rparr>"

definition db_null_row_middle :: RelDB where
  "db_null_row_middle = db_empty\<lparr>assetTable := [row_WBTC, row_null, row_USDC]\<rparr>"

definition asset_unpersisted :: Asset where
  "asset_unpersisted = zero_Asset\<lparr>Symbol := ''DAI'', Address := ''0x999'', Blockchain := ''Ethereum''\<rparr>"

definition symbol_BTC :: exchangesymbol_row where
  "symbol_BTC = \<lparr>es_symbol = ''BTC'', es_exchange = ''Binance'', es_verified = False, es_asset_id = None\<rparr>"

definition db_symbols :: RelDB where
  "db_symbols = db_two_assets\<lparr>exchangesymbolTable := [symbol_BTC]\<rparr>"

definition pair_row_WBTC :: exchangepair_row where
  "pair_row_WBTC = \<lparr>ep_symbol = ''WBTC'', ep_foreignname = ''WBTC-USDC'', ep_exchange = ''Binance'',
                    ep_verified = True, ep_id_quotetoken = Some ''id-wbtc'', ep_id_basetoken = None\<rparr>"

definition db_pairs :: RelDB where
  "db_pairs = db_two_assets\<lparr>exchangepairTable := [pair_row_WBTC]\<rparr>"

definition pair_unverified :: ExchangePair where
  "pair_unverified = zero_ExchangePair\<lparr>PairSymbol := ''WBTC'', ForeignName := ''WBTC-USDC'',
                       Exchange := ''Binance'', Verified := False\<rparr>"

definition db_pairs_unverified :: RelDB where
  "db_pairs_unverified = db_two_assets\<lparr>exchangepairTable := [pair_row_WBTC\<lparr>ep_verified := False\<rparr>]\<rparr>"

text \<open>
  The decimals column is a text column: every other read of the file scans it into a
  Go \<open>string\<close> and parses that. pgx v4 has no assignment of a text value to a \<open>*uint8\<close>
  destination, so on this column the conversion of \<open>GetPage\<close> fails for every text.
\<close>

definition scan_uint8_text_column :: "string \<Rightarrow> 8 word option" where
  "scan_uint8_text_column d = None"

subsection \<open>Deduplication in first-seen order\<close>

text \<open>
  The specification of \<open>GetAssetsWithVOLInflux\<close>: the pairs in encounter order, each
  kept where it is first seen and dropped afterwards.
\<close>

fun first_seen :: "'a list \<Rightarrow> 'a list" where
  "first_seen [] = []"
| "first_seen (x # xs) = x # first_seen (removeAll x xs)"

text \<open>
  A row of the series is well formed when it has the columns time, address and
  blockchain and the latter two are strings or null. It denotes a pair when both are
  strings: the asset with that address and blockchain and every other field default.
\<close>

fun nil_or_string :: "jvalue \<Rightarrow> bool" where
  "nil_or_string JNil = True"
| "nil_or_string (JString s) = True"
| "nil_or_string _ = False"

definition row_wellformed :: "jvalue list \<Rightarrow> bool" where
  "row_wellformed val = (3 \<le> length val \<and> nil_or_string (val ! 1) \<and> nil_or_string (val ! 2))"

definition row_pair :: "jvalue list \<Rightarrow> Asset option" where
  "row_pair val =
     (case (val ! 1, val ! 2) of
        (JString addr, JString chain) \<Rightarrow> Some (zero_Asset\<lparr>Address := addr, Blockchain := chain\<rparr>)
      | _ \<Rightarrow> None)"

definition series_example :: "jvalue list list" where
  "series_example =
     [[JNumber 1, JString ''0xabc'', JString ''Ethereum'', JNumber 10],
      [JNumber 2, JString ''0xdef'', JString ''Ethereum'', JNumber 20],
      [JNumber 3, JNil, JString ''Ethereum'', JNumber 30],
      [JNumber 4, JString ''0xabc'', JString ''Ethereum'', JNumber 40]]"

definition influx_example :: "string \<Rightarrow> Result list \<times> error option" where
  "influx_example q = ([\<lparr>Series = [\<lparr>Values = series_example\<rparr>]\<rparr>], None)"

definition influx_no_series :: "string \<Rightarrow> Result list \<times> error option" where
  "influx_no_series q = ([\<lparr>Series = []\<rparr>], None)"

section \<open>Properties\<close>

subsection \<open>Auxiliary facts\<close>

lemma list_all_filter: "list_all P xs \<Longrightarrow> list_all P (filter Q xs)"
  by (induction xs) auto

lemma digit_char_not_quote: "d < 10 \<Longrightarrow> digit_char d \<noteq> CHR 0x27"
proof
  assume d: "d < 10" and e: "digit_char d = CHR 0x27"
  from e have "(of_char (digit_char d) :: nat) = of_char (CHR 0x27)" by simp
  with d show False by (simp add: digit_char_def)
qed

lemma digit_char_not_space: "d < 10 \<Longrightarrow> digit_char d \<noteq> CHR '' ''"
proof
  assume d: "d < 10" and e: "digit_char d = CHR '' ''"
  from e have "(of_char (digit_char d) :: nat) = of_char (CHR '' '')" by simp
  with d show False by (simp add: digit_char_def)
qed

lemma sql_plain_Itoa: "sql_plain (Itoa n)"
proof (induction n rule: Itoa.induct)
  case (1 n)
  show ?case
  proof (cases "n < 10")
    case True
    then show ?thesis
      using digit_char_not_quote [of n] by (simp add: Itoa.simps [of n] sql_plain_def)
  next
    case False
    have "n mod 10 < 10" by simp
    then have "digit_char (n mod 10) \<noteq> CHR 0x27" by (rule digit_char_not_quote)
    with False 1 show ?thesis
      by (simp add: Itoa.simps [of n] sql_plain_def)
  qed
qed

lemma Itoa_no_space: "CHR '' '' \<notin> set (Itoa n)"
proof (induction n rule: Itoa.induct)
  case (1 n)
  show ?case
  proof (cases "n < 10")
    case True
    then show ?thesis
      using digit_char_not_space [of n] by (simp add: Itoa.simps [of n])
  next
    case False
    have "n mod 10 < 10" by simp
    then have "digit_char (n mod 10) \<noteq> CHR '' ''" by (rule digit_char_not_space)
    with False 1 show ?thesis
      by (simp add: Itoa.simps [of n])
  qed
qed

lemma digit_char_inj: "a < 10 \<Longrightarrow> digit_char a = digit_char 0 \<Longrightarrow> a = 0"
proof -
  assume a: "a < 10" and e: "digit_char a = digit_char 0"
  from e have "(of_char (digit_char a) :: nat) = of_char (digit_char 0)" by simp
  with a show ?thesis by (simp add: digit_char_def)
qed

lemma Itoa_length: "10 \<le> n \<Longrightarrow> 2 \<le> length (Itoa n)"
  by (subst Itoa.simps) (simp add: Suc_le_eq Itoa.simps [of "n div 10"])

lemma Itoa_zero: "Itoa n = ''0'' \<longleftrightarrow> n = 0"
proof (cases "n < 10")
  case True
  have z: "''0'' = [digit_char 0]" unfolding digit_char_def by code_simp
  from True show ?thesis
    using digit_char_inj [of n] by (auto simp: Itoa.simps [of n] z simp del: One_nat_def)
next
  case False
  then have "2 \<le> length (Itoa n)" by (simp add: Itoa_length)
  with False show ?thesis by auto
qed

lemma Split_space_no_space: "CHR '' '' \<notin> set s \<Longrightarrow> Split_space s = [s]"
  by (induction s) auto

lemma Split_space_tag: "Split_space (''UPDATE '' @ Itoa n) = [''UPDATE'', Itoa n]"
  by (simp add: Split_space_no_space Itoa_no_space)

text \<open>The five-column scan of a row that denotes an asset, and of a row that scans.\<close>

lemma Scan_asset5_row_Asset:
  "row_Asset r = Some a \<Longrightarrow>
   \<exists>d k. Scan_asset5 r (zero_Asset, d0) = ((a\<lparr>Decimals := 0\<rparr>, d), None) \<and> Atoi d = Some k \<and>
         a = (a\<lparr>Decimals := 0\<rparr>)\<lparr>Decimals := uint8 k\<rparr>"
  by (auto simp: row_Asset_def Scan_asset5_def zero_Asset_def split: option.splits)

lemma Scan_asset5_scans:
  "row_scans r \<Longrightarrow>
   \<exists>p d. Scan_asset5 r (zero_Asset, d0) = ((p, d), None) \<and>
          row_Asset r = (case Atoi d of None \<Rightarrow> None | Some k \<Rightarrow> Some (p\<lparr>Decimals := uint8 k\<rparr>))"
  by (auto simp: row_scans_def row_Asset_def Scan_asset5_def zero_Asset_def split: option.splits)

subsection \<open>\<open>GetAssetsBySymbolName\<close>\<close>

lemma GetAssetsBySymbolName_loop_decodes:
  "list_all (\<lambda>r. row_Asset r \<noteq> None) rows \<Longrightarrow>
   GetAssetsBySymbolName_loop rows d0 acc = (acc @ List.map_filter row_Asset rows, None)"
proof (induction rows arbitrary: d0 acc)
  case Nil
  then show ?case by simp
next
  case (Cons r rows)
  then obtain a where a: "row_Asset r = Some a" by auto
  from Scan_asset5_row_Asset [OF a, of d0] obtain d k where
    s: "Scan_asset5 r (zero_Asset, d0) = ((a\<lparr>Decimals := 0\<rparr>, d), None)" and
    k: "Atoi d = Some k" and e: "a = (a\<lparr>Decimals := 0\<rparr>)\<lparr>Decimals := uint8 k\<rparr>" by blast
  have "GetAssetsBySymbolName_loop (r # rows) d0 acc =
        GetAssetsBySymbolName_loop rows d (acc @ [a])"
    using s k e by simp
  also have "\<dots> = ((acc @ [a]) @ List.map_filter row_Asset rows, None)"
    using Cons by simp
  finally show ?case using a by simp
qed

text \<open>
  Claim C1, as the code has it. On a reachable store whose rows all denote assets,
  \<open>GetAssetsBySymbolName\<close> returns, in table order and with no error: with an empty name
  the assets whose symbol is the argument; with a non-empty name and an empty symbol the
  assets whose name is the argument; with both non-empty the assets that match both.
  The first case does not ask the symbol to be non-empty: with both arguments empty the
  operation selects the assets whose symbol is the empty string, not the whole table.
\<close>

theorem GetAssetsBySymbolName_filters:
  assumes "pg_up db" and "table_decodes db"
  shows "(name' = [] \<longrightarrow>
            GetAssetsBySymbolName db symbol' name' =
              (List.map_filter row_Asset (filter (\<lambda>r. a_symbol r = Some symbol') (assetTable db)), None)) \<and>
         (name' \<noteq> [] \<and> symbol' = [] \<longrightarrow>
            GetAssetsBySymbolName db symbol' name' =
              (List.map_filter row_Asset (filter (\<lambda>r. a_name r = Some name') (assetTable db)), None)) \<and>
         (name' \<noteq> [] \<and> symbol' \<noteq> [] \<longrightarrow>
            GetAssetsBySymbolName db symbol' name' =
              (List.map_filter row_Asset
                 (filter (\<lambda>r. a_symbol r = Some symbol' \<and> a_name r = Some name') (assetTable db)), None))"
  using assms
  by (simp add: GetAssetsBySymbolName_def Query_asset_def table_decodes_def list_all_filter
      GetAssetsBySymbolName_loop_decodes)

lemmas example_rows =
  row_WBTC_def row_USDC_def row_XYZ_def asset_WBTC_def asset_USDC_def row_Asset_def row_scans_def
  Atoi_def is_digit_def digits_val_def digit_val_def uint8_def

theorem GetAssetsBySymbolName_filters_witness:
  "pg_up db_two_assets \<and> table_decodes db_two_assets \<and>
   GetAssetsBySymbolName db_two_assets ''WBTC'' [] = ([asset_WBTC], None) \<and>
   GetAssetsBySymbolName db_two_assets [] ''USD Coin'' = ([asset_USDC], None) \<and>
   GetAssetsBySymbolName db_two_assets ''USDC'' ''USD Coin'' = ([asset_USDC], None)"
proof -
  have up: "pg_up db_two_assets" and dec: "table_decodes db_two_assets"
    by (simp_all add: db_two_assets_def db_empty_def table_decodes_def example_rows)
  show ?thesis
    using up dec
      GetAssetsBySymbolName_filters [OF up dec, of "[]" "''WBTC''"]
      GetAssetsBySymbolName_filters [OF up dec, of "''USD Coin''" "[]"]
      GetAssetsBySymbolName_filters [OF up dec, of "''USD Coin''" "''USDC''"]
    by (simp add: db_two_assets_def db_empty_def example_rows)
qed

text \<open>
  The claim as stated fails where both arguments are empty: on a store of two assets
  with non-empty symbols the operation returns no asset, not the two of the table.
\<close>

theorem GetAssetsBySymbolName_both_empty_counterexample:
  "GetAssetsBySymbolName db_two_assets [] [] = ([], None) \<and>
   List.map_filter row_Asset (assetTable db_two_assets) = [asset_WBTC, asset_USDC]"
  by (simp add: db_two_assets_def db_empty_def GetAssetsBySymbolName_def Query_asset_def example_rows)

subsection \<open>\<open>IdentifyAsset\<close>\<close>

text \<open>
  The text that the source sends is the rendering of the conditions of the model; with
  every field default it is the head alone, ending in \<open>where\<close>.
\<close>

lemma IdentifyAsset_query_conds:
  "IdentifyAsset_query HexToAddressHex asset =
     ''select symbol,name,address,decimals,blockchain from asset where '' @
     join_and (map render_cond (IdentifyAsset_conds HexToAddressHex asset))"
  by (simp add: IdentifyAsset_query_def IdentifyAsset_conds_def render_cond_def Let_def)

lemma IdentifyAsset_query_all_default:
  "IdentifyAsset_query HexToAddressHex zero_Asset =
     ''select symbol,name,address,decimals,blockchain from asset where ''"
  by (simp add: IdentifyAsset_query_def zero_Asset_def)

lemma IdentifyAsset_loop_scans:
  "list_all row_scans rows \<Longrightarrow>
   IdentifyAsset_loop rows d0 acc = (acc @ List.map_filter row_Asset rows, None)"
proof (induction rows arbitrary: d0 acc)
  case Nil
  then show ?case by simp
next
  case (Cons r rows)
  then have "row_scans r" by simp
  from Scan_asset5_scans [OF this, of d0] obtain p d where
    s: "Scan_asset5 r (zero_Asset, d0) = ((p, d), None)" and
    a: "row_Asset r = (case Atoi d of None \<Rightarrow> None | Some k \<Rightarrow> Some (p\<lparr>Decimals := uint8 k\<rparr>))"
    by blast
  from Cons have IH: "\<And>d0 acc. IdentifyAsset_loop rows d0 acc = (acc @ List.map_filter row_Asset rows, None)"
    by simp
  show ?case
    by (cases "Atoi d") (simp_all add: s a IH)
qed

text \<open>
  Claim C3, as the code has it. Let the candidate have at least one non-default field,
  and no single quote in its symbol, name, normalised address and blockchain; let the
  store be reachable and its rows scan. Then \<open>IdentifyAsset\<close> returns, with no error and
  in table order, the assets denoted by the rows that satisfy every condition of a
  non-default field and no other condition: symbol, name, address in its normalised
  spelling, decimals as the decimal text of a non-zero value, blockchain. A row whose
  decimals text is not a number is left out. So with only the symbol set the result is
  every asset with that symbol, and decimals equal to zero never filter.
\<close>

theorem IdentifyAsset_conjunctive_filter:
  assumes "pg_up db" and "table_scans db"
    and "sql_plain (Symbol c)" and "sql_plain (Name c)"
    and "sql_plain (HexToAddressHex (Address c))" and "sql_plain (Blockchain c)"
    and "Symbol c \<noteq> [] \<or> Name c \<noteq> [] \<or> Address c \<noteq> [] \<or> Decimals c \<noteq> 0 \<or> Blockchain c \<noteq> []"
  shows "IdentifyAsset HexToAddressHex db c =
           Some (List.map_filter row_Asset
                   (filter (\<lambda>r. (Symbol c = [] \<or> a_symbol r = Some (Symbol c)) \<and>
                                 (Name c = [] \<or> a_name r = Some (Name c)) \<and>
                                 (Address c = [] \<or> a_address r = Some (HexToAddressHex (Address c))) \<and>
                                 (Decimals c = 0 \<or> a_decimals r = Some (Itoa (unat (Decimals c)))) \<and>
                                 (Blockchain c = [] \<or> a_blockchain r = Some (Blockchain c)))
                      (assetTable db)), None)"
proof -
  let ?conds = "IdentifyAsset_conds HexToAddressHex c"
  have ne: "?conds \<noteq> []"
    using assms(7) by (auto simp: IdentifyAsset_conds_def)
  have plain: "list_all (\<lambda>(c, v). sql_plain v) ?conds"
    using assms(3-6) by (simp add: IdentifyAsset_conds_def sql_plain_Itoa)
  have sel: "\<And>r. list_all (\<lambda>(col, v). col_of col r = Some v) ?conds \<longleftrightarrow>
               ((Symbol c = [] \<or> a_symbol r = Some (Symbol c)) \<and>
                (Name c = [] \<or> a_name r = Some (Name c)) \<and>
                (Address c = [] \<or> a_address r = Some (HexToAddressHex (Address c))) \<and>
                (Decimals c = 0 \<or> a_decimals r = Some (Itoa (unat (Decimals c)))) \<and>
                (Blockchain c = [] \<or> a_blockchain r = Some (Blockchain c)))"
    by (simp add: IdentifyAsset_conds_def)
  have q: "Query_asset_where db ?conds =
             Inr (filter (\<lambda>r. list_all (\<lambda>(col, v). col_of col r = Some v) ?conds) (assetTable db))"
    using assms(1) ne plain by (simp add: Query_asset_where_def)
  have "list_all row_scans (filter (\<lambda>r. list_all (\<lambda>(col, v). col_of col r = Some v) ?conds) (assetTable db))"
    using assms(2) by (simp add: table_scans_def list_all_filter)
  then show ?thesis
    by (simp add: IdentifyAsset_def q IdentifyAsset_loop_scans sel)
qed

lemma Itoa_6: "Itoa 6 = ''6''"
  unfolding Itoa.simps [of 6] digit_char_def by code_simp

text \<open>
  On a store of three assets, one of them with the decimals text \<open>eight\<close>: the candidate
  with only the symbol \<open>WBTC\<close>, and the candidate with decimals 6 on \<open>Ethereum\<close>.
\<close>

theorem IdentifyAsset_conjunctive_filter_witness:
  "pg_up db_three_assets \<and> table_scans db_three_assets \<and>
   IdentifyAsset id db_three_assets candidate_WBTC = Some ([asset_WBTC], None) \<and>
   IdentifyAsset id db_three_assets candidate_six = Some ([asset_USDC], None)"
proof -
  have up: "pg_up db_three_assets" and sc: "table_scans db_three_assets"
    by (simp_all add: db_three_assets_def db_empty_def table_scans_def example_rows)
  have p1: "sql_plain (Symbol candidate_WBTC)" "sql_plain (Name candidate_WBTC)"
      "sql_plain (id (Address candidate_WBTC))" "sql_plain (Blockchain candidate_WBTC)"
    and n1: "Symbol candidate_WBTC \<noteq> [] \<or> Name candidate_WBTC \<noteq> [] \<or> Address candidate_WBTC \<noteq> [] \<or>
       Decimals candidate_WBTC \<noteq> 0 \<or> Blockchain candidate_WBTC \<noteq> []"
    by (simp_all add: candidate_WBTC_def zero_Asset_def sql_plain_def)
  have p2: "sql_plain (Symbol candidate_six)" "sql_plain (Name candidate_six)"
      "sql_plain (id (Address candidate_six))" "sql_plain (Blockchain candidate_six)"
    and n2: "Symbol candidate_six \<noteq> [] \<or> Name candidate_six \<noteq> [] \<or> Address candidate_six \<noteq> [] \<or>
       Decimals candidate_six \<noteq> 0 \<or> Blockchain candidate_six \<noteq> []"
    by (simp_all add: candidate_six_def zero_Asset_def sql_plain_def)
  show ?thesis
    using up sc
      IdentifyAsset_conjunctive_filter [where HexToAddressHex = id, OF up sc p1 n1]
      IdentifyAsset_conjunctive_filter [where HexToAddressHex = id, OF up sc p2 n2]
    by (simp add: db_three_assets_def db_empty_def example_rows candidate_WBTC_def candidate_six_def
        zero_Asset_def Itoa_6)
qed

text \<open>
  The claim as stated fails for the candidate with every field default: no condition is
  appended, the statement text ends in \<open>where\<close>, and the call returns the store's error
  and no asset, on a store that holds two.
\<close>

theorem IdentifyAsset_all_default_counterexample:
  "IdentifyAsset id db_two_assets zero_Asset = Some ([], Some SqlSyntaxError) \<and>
   List.map_filter row_Asset (assetTable db_two_assets) = [asset_WBTC, asset_USDC]"
  by (simp add: IdentifyAsset_def IdentifyAsset_conds_def Query_asset_where_def zero_Asset_def
      db_two_assets_def db_empty_def example_rows)

subsection \<open>\<open>GetAllAssets\<close>\<close>

lemma GetAllAssets_body_Blockchain:
  "list_all (\<lambda>a. Blockchain a = bc) acc \<Longrightarrow> GetAllAssets_body bc r d acc = (d', acc', closed) \<Longrightarrow>
   list_all (\<lambda>a. Blockchain a = bc) acc'"
  by (auto simp: GetAllAssets_body_def split: prod.splits option.splits)

lemma GetAllAssets_loop_Blockchain:
  "list_all (\<lambda>a. Blockchain a = bc) acc \<Longrightarrow>
   list_all (\<lambda>a. Blockchain a = bc) (GetAllAssets_loop bc rows d acc)"
proof (induction rows arbitrary: d acc)
  case Nil
  then show ?case by simp
next
  case (Cons r rows)
  obtain d' acc' closed where b: "GetAllAssets_body bc r d acc = (d', acc', closed)"
    by (cases "GetAllAssets_body bc r d acc") auto
  from GetAllAssets_body_Blockchain [OF Cons.prems b] have "list_all (\<lambda>a. Blockchain a = bc) acc'" .
  with Cons.IH [of acc' d'] b show ?case by simp
qed

lemma GetAllAssets_body_scans:
  "row_scans r \<Longrightarrow> a_blockchain r = Some bc \<Longrightarrow>
   \<exists>d'. GetAllAssets_body bc r d acc =
     (d', acc @ (case row_Asset r of None \<Rightarrow> [] | Some a \<Rightarrow> [a]), False)"
  by (auto simp: GetAllAssets_body_def Scan_asset4_def row_scans_def row_Asset_def zero_Asset_def
      split: option.splits)

lemma GetAllAssets_loop_scans:
  "list_all (\<lambda>r. row_scans r \<and> a_blockchain r = Some bc) rows \<Longrightarrow>
   GetAllAssets_loop bc rows d acc = acc @ List.map_filter row_Asset rows"
proof (induction rows arbitrary: d acc)
  case Nil
  then show ?case by simp
next
  case (Cons r rows)
  then have "row_scans r" "a_blockchain r = Some bc" by simp_all
  from GetAllAssets_body_scans [OF this, of d acc] obtain d' where
    b: "GetAllAssets_body bc r d acc = (d', acc @ (case row_Asset r of None \<Rightarrow> [] | Some a \<Rightarrow> [a]), False)"
    by blast
  from Cons have IH: "\<And>d acc. GetAllAssets_loop bc rows d acc = acc @ List.map_filter row_Asset rows"
    by simp
  show ?case by (cases "row_Asset r") (simp_all add: b IH)
qed

lemma list_all_scans_filter:
  "list_all row_scans xs \<Longrightarrow>
   list_all (\<lambda>r. row_scans r \<and> a_blockchain r = Some bc) (filter (\<lambda>r. a_blockchain r = Some bc) xs)"
  by (induction xs) auto

text \<open>
  What holds on every reachable store: \<open>GetAllAssets\<close> returns a nil error whatever
  the rows hold, and every asset returned has the argument as its \<open>Blockchain\<close>. Where
  the rows scan, the result is the assets denoted by the rows of that blockchain, in
  table order, the rows whose decimals text is not a number left out.
\<close>

lemma GetAllAssets_nil_error:
  assumes "pg_up db"
  shows "snd (GetAllAssets db bc) = None \<and>
         list_all (\<lambda>a. Blockchain a = bc) (fst (GetAllAssets db bc)) \<and>
         (table_scans db \<longrightarrow>
            fst (GetAllAssets db bc) =
              List.map_filter row_Asset (filter (\<lambda>r. a_blockchain r = Some bc) (assetTable db)))"
  using assms
  by (simp add: GetAllAssets_def Query_asset_def GetAllAssets_loop_Blockchain table_scans_def
      GetAllAssets_loop_scans list_all_scans_filter)

text \<open>The store of three assets: the one with the decimals text \<open>eight\<close> is left out.\<close>

lemma GetAllAssets_parse_error_example:
  "pg_up db_three_assets \<and> table_scans db_three_assets \<and>
   GetAllAssets db_three_assets ''Ethereum'' = ([asset_WBTC, asset_USDC], None)"
proof -
  have up: "pg_up db_three_assets" and sc: "table_scans db_three_assets"
    by (simp_all add: db_three_assets_def db_empty_def table_scans_def example_rows)
  show ?thesis
    using up sc GetAllAssets_nil_error [OF up, of "''Ethereum''"]
    by (simp add: prod_eq_iff db_three_assets_def db_empty_def example_rows)
qed

text \<open>
  Claim C10, at a store of three rows on \<open>Ethereum\<close> whose second row has a null name.
  The rows that denote assets are the first and the third. A row that cannot be read
  is not dropped with the rest returned: the scan of the second row stops at the name
  and the error is logged, but the body does not \<open>continue\<close> as it does after a parse
  error. It goes on with the symbol it has read and the decimals text of the row
  before, and appends that half-read asset; the driver has closed the result set on
  the scan error, so the third row is never read. The call returns a nil error with
  the first asset and the half-read one.
\<close>

theorem GetAllAssets_scan_error_not_dropped:
  "GetAllAssets db_null_row_middle ''Ethereum'' =
     ([asset_WBTC,
       \<lparr>Symbol = ''NUL'', Name = [], Address = [], Decimals = 8, Blockchain = ''Ethereum''\<rparr>], None) \<and>
   List.map_filter row_Asset (assetTable db_null_row_middle) = [asset_WBTC, asset_USDC]"
  by (simp add: GetAllAssets_def Query_asset_def GetAllAssets_body_def Scan_asset4_def
      db_null_row_middle_def db_empty_def row_null_def zero_Asset_def example_rows)

text \<open>
  The same row last: nothing is left to lose, and the half-read asset takes the
  decimals of the row before it.
\<close>

lemma GetAllAssets_scan_error_example:
  "GetAllAssets db_null_row ''Ethereum'' =
     ([asset_WBTC, asset_USDC,
       \<lparr>Symbol = ''NUL'', Name = [], Address = [], Decimals = 6, Blockchain = ''Ethereum''\<rparr>], None)"
  by (simp add: GetAllAssets_def Query_asset_def GetAllAssets_body_def Scan_asset4_def
      db_null_row_def db_empty_def row_null_def zero_Asset_def example_rows)

subsection \<open>\<open>VerifyExchangeSymbol\<close> and \<open>SetExchangeSymbol\<close>\<close>

lemma map_no_hit: "\<not> list_ex P xs \<Longrightarrow> map (\<lambda>r. if P r then f r else r) xs = xs"
  by (induction xs) auto

lemma filter_no_hit: "\<not> list_ex P xs \<Longrightarrow> filter P xs = []"
  by (induction xs) auto

lemma filter_hit_length: "list_ex P xs \<Longrightarrow> length (filter P xs) \<noteq> 0"
  by (induction xs) auto

lemma Itoa_0: "Itoa 0 = ''0''"
  by (simp add: Itoa_zero)

lemma filter_updated_first:
  "list_ex P xs \<Longrightarrow> (\<And>r. P r \<Longrightarrow> P (f r)) \<Longrightarrow>
   \<exists>r rs. P r \<and> filter P (map (\<lambda>r. if P r then f r else r) xs) = f r # rs"
proof (induction xs)
  case Nil
  then show ?case by simp
next
  case (Cons x xs)
  show ?case
  proof (cases "P x")
    case True
    with Cons.prems(2) show ?thesis by auto
  next
    case False
    with Cons show ?thesis by auto
  qed
qed

text \<open>
  Claim C4. On a reachable store: where no row of the exchangesymbol table has the
  symbol and the exchange, \<open>VerifyExchangeSymbol\<close> returns \<open>(false, nil)\<close> and leaves the
  store as it is; where a row has them (verified or not), it returns \<open>(true, nil)\<close>, and
  \<open>GetExchangeSymbolAssetID\<close> on the store it leaves returns the supplied identifier
  with \<open>verified = true\<close> and no error.
\<close>

theorem VerifyExchangeSymbol_reports_update:
  assumes "pg_up db"
  shows "(\<not> list_ex (\<lambda>r. es_symbol r = symbol' \<and> es_exchange r = exchange) (exchangesymbolTable db) \<longrightarrow>
            VerifyExchangeSymbol db exchange symbol' assetID = (db, False, None)) \<and>
         (list_ex (\<lambda>r. es_symbol r = symbol' \<and> es_exchange r = exchange) (exchangesymbolTable db) \<longrightarrow>
            snd (VerifyExchangeSymbol db exchange symbol' assetID) = (True, None) \<and>
            GetExchangeSymbolAssetID (fst (VerifyExchangeSymbol db exchange symbol' assetID))
              exchange symbol' = (assetID, True, None))"
proof (intro conjI impI)
  let ?hit = "\<lambda>r. es_symbol r = symbol' \<and> es_exchange r = exchange"
  let ?f = "\<lambda>r. r\<lparr>es_verified := True, es_asset_id := Some assetID\<rparr>"
  let ?db' = "db\<lparr>exchangesymbolTable := map (\<lambda>r. if ?hit r then ?f r else r) (exchangesymbolTable db)\<rparr>"
  let ?n = "length (filter ?hit (exchangesymbolTable db))"
  {
    assume no: "\<not> list_ex ?hit (exchangesymbolTable db)"
    have e: "Exec_verify db assetID symbol' exchange = ((db, ''UPDATE '' @ Itoa 0), None)"
      using assms no by (simp add: Exec_verify_def map_no_hit filter_no_hit)
    show "VerifyExchangeSymbol db exchange symbol' assetID = (db, False, None)"
      by (simp add: VerifyExchangeSymbol_def e Split_space_tag Itoa_0)
  }
  {
    assume yes: "list_ex ?hit (exchangesymbolTable db)"
    have e: "Exec_verify db assetID symbol' exchange = ((?db', ''UPDATE '' @ Itoa ?n), None)"
      using assms by (simp add: Exec_verify_def)
    have n: "?n \<noteq> 0" using yes by (rule filter_hit_length)
    have v: "VerifyExchangeSymbol db exchange symbol' assetID = (?db', True, None)"
      using n by (simp add: VerifyExchangeSymbol_def e Split_space_tag Itoa_zero del: append.simps)
    from filter_updated_first [of ?hit "exchangesymbolTable db" ?f, OF yes]
    obtain r rs where "?hit r" and
      f: "filter ?hit (map (\<lambda>r. if ?hit r then ?f r else r) (exchangesymbolTable db)) = ?f r # rs"
      by auto
    have g: "GetExchangeSymbolAssetID ?db' exchange symbol' = (assetID, True, None)"
      using assms by (simp add: GetExchangeSymbolAssetID_def f)
    from v show "snd (VerifyExchangeSymbol db exchange symbol' assetID) = (True, None)"
      by simp
    from v g show "GetExchangeSymbolAssetID (fst (VerifyExchangeSymbol db exchange symbol' assetID))
              exchange symbol' = (assetID, True, None)"
      by simp
  }
qed

text \<open>
  A store with the unverified symbol \<open>BTC\<close> on \<open>Binance\<close>: verifying \<open>ETH\<close> there
  changes nothing, verifying \<open>BTC\<close> is reported and read back.
\<close>

theorem VerifyExchangeSymbol_reports_update_witness:
  "pg_up db_symbols \<and>
   VerifyExchangeSymbol db_symbols ''Binance'' ''ETH'' ''id-wbtc'' = (db_symbols, False, None) \<and>
   snd (VerifyExchangeSymbol db_symbols ''Binance'' ''BTC'' ''id-wbtc'') = (True, None) \<and>
   GetExchangeSymbolAssetID (fst (VerifyExchangeSymbol db_symbols ''Binance'' ''BTC'' ''id-wbtc''))
     ''Binance'' ''BTC'' = (''id-wbtc'', True, None)"
proof -
  have up: "pg_up db_symbols"
    by (simp add: db_symbols_def db_two_assets_def db_empty_def)
  show ?thesis
    using up
      VerifyExchangeSymbol_reports_update [OF up, of "''ETH''" "''Binance''" "''id-wbtc''"]
      VerifyExchangeSymbol_reports_update [OF up, of "''BTC''" "''Binance''" "''id-wbtc''"]
    by (simp add: db_symbols_def db_two_assets_def db_empty_def symbol_BTC_def)
qed

text \<open>Verification only ever sets the flag: a verified symbol stays verified.\<close>

lemma VerifyExchangeSymbol_never_unverifies:
  "map es_verified (exchangesymbolTable (fst (VerifyExchangeSymbol db exchange symbol' assetID))) =
   map (\<lambda>r. es_verified r \<or> (pg_up db \<and> es_symbol r = symbol' \<and> es_exchange r = exchange))
     (exchangesymbolTable db)"
  by (auto simp: VerifyExchangeSymbol_def Exec_verify_def Let_def)

text \<open>
  No pair twice is an invariant of the two operations that write the table, and the
  empty table has it.
\<close>

lemma distinct_key_count:
  "distinct (map (\<lambda>r. (es_symbol r, es_exchange r)) xs) \<Longrightarrow>
   length (filter (\<lambda>r. es_symbol r = s \<and> es_exchange r = e) xs) \<le> 1"
proof (induction xs)
  case Nil
  then show ?case by simp
next
  case (Cons x xs)
  show ?case
  proof (cases "es_symbol x = s \<and> es_exchange x = e")
    case True
    with Cons.prems have "\<not> list_ex (\<lambda>r. es_symbol r = s \<and> es_exchange r = e) xs"
      by (auto simp: list_ex_iff image_iff)
    then have "filter (\<lambda>r. es_symbol r = s \<and> es_exchange r = e) xs = []"
      by (rule filter_no_hit)
    with True show ?thesis by simp
  next
    case False
    with Cons show ?thesis by auto
  qed
qed

lemma SetExchangeSymbol_keeps_unique:
  "symbols_unique db \<Longrightarrow> symbols_unique (fst (SetExchangeSymbol db exchange symbol'))"
  by (auto simp: SetExchangeSymbol_def symbols_unique_def list_ex_iff)

lemma VerifyExchangeSymbol_keeps_unique:
  "symbols_unique db \<Longrightarrow> symbols_unique (fst (VerifyExchangeSymbol db exchange symbol' assetID))"
proof -
  have "map (\<lambda>r. (es_symbol r, es_exchange r))
          (exchangesymbolTable (fst (VerifyExchangeSymbol db exchange symbol' assetID))) =
        map (\<lambda>r. (es_symbol r, es_exchange r)) (exchangesymbolTable db)"
    by (auto simp: VerifyExchangeSymbol_def Exec_verify_def Let_def)
  then show "symbols_unique db \<Longrightarrow> ?thesis" by (simp add: symbols_unique_def)
qed

lemma symbols_unique_empty: "symbols_unique db_empty"
  by (simp add: symbols_unique_def db_empty_def)

text \<open>
  Claim C5. On a reachable store in which no pair of symbol and exchange is on two
  rows, \<open>SetExchangeSymbol\<close> returns no error, a second call with the same arguments
  returns no error and the store unchanged, and the table then holds the pair on
  exactly one row.
\<close>

theorem SetExchangeSymbol_idempotent:
  assumes "pg_up db" and "symbols_unique db"
  shows "snd (SetExchangeSymbol db exchange symbol') = None \<and>
         SetExchangeSymbol (fst (SetExchangeSymbol db exchange symbol')) exchange symbol' =
           (fst (SetExchangeSymbol db exchange symbol'), None) \<and>
         length (filter (\<lambda>r. es_symbol r = symbol' \<and> es_exchange r = exchange)
                   (exchangesymbolTable (fst (SetExchangeSymbol db exchange symbol')))) = 1"
proof (cases "list_ex (\<lambda>r. es_symbol r = symbol' \<and> es_exchange r = exchange) (exchangesymbolTable db)")
  case True
  then have "length (filter (\<lambda>r. es_symbol r = symbol' \<and> es_exchange r = exchange) (exchangesymbolTable db)) \<noteq> 0"
    by (rule filter_hit_length)
  moreover from assms(2)
  have "length (filter (\<lambda>r. es_symbol r = symbol' \<and> es_exchange r = exchange) (exchangesymbolTable db)) \<le> 1"
    unfolding symbols_unique_def by (rule distinct_key_count)
  ultimately
  have "length (filter (\<lambda>r. es_symbol r = symbol' \<and> es_exchange r = exchange) (exchangesymbolTable db)) = 1"
    by linarith
  with assms(1) True show ?thesis by (simp add: SetExchangeSymbol_def)
next
  case False
  with assms show ?thesis by (simp add: SetExchangeSymbol_def filter_no_hit)
qed

text \<open>The pair \<open>ETH\<close> on \<open>Binance\<close>, new to the store, and the pair \<open>BTC\<close>, already there.\<close>

theorem SetExchangeSymbol_idempotent_witness:
  "pg_up db_symbols \<and> symbols_unique db_symbols \<and>
   length (exchangesymbolTable (fst (SetExchangeSymbol db_symbols ''Binance'' ''ETH''))) = 2 \<and>
   SetExchangeSymbol (fst (SetExchangeSymbol db_symbols ''Binance'' ''ETH'')) ''Binance'' ''ETH'' =
     (fst (SetExchangeSymbol db_symbols ''Binance'' ''ETH''), None) \<and>
   SetExchangeSymbol db_symbols ''Binance'' ''BTC'' = (db_symbols, None)"
proof -
  have up: "pg_up db_symbols" and un: "symbols_unique db_symbols"
    by (simp_all add: symbols_unique_def db_symbols_def db_two_assets_def db_empty_def)
  show ?thesis
    using up un SetExchangeSymbol_idempotent [OF up un, of "''Binance''" "''ETH''"]
      SetExchangeSymbol_idempotent [OF up un, of "''Binance''" "''BTC''"]
    by (simp add: SetExchangeSymbol_def db_symbols_def db_two_assets_def db_empty_def symbol_BTC_def)
qed

subsection \<open>\<open>SetAssetCache\<close>\<close>

text \<open>
  Claim C8. For an asset whose address and blockchain are on no row of the asset table,
  \<open>SetAssetCache\<close> returns an error and the store, the cache with it, is as before:
  the key comes from \<open>GetAssetID\<close> and nothing is written without it.
\<close>

theorem SetAssetCache_unpersisted_fails:
  assumes "\<not> list_ex (\<lambda>r. a_address r = Some (Address a) \<and> a_blockchain r = Some (Blockchain a)) (assetTable db)"
  shows "\<exists>err. SetAssetCache keyAssetCache db a = (db, Some err)"
  using assms
  by (simp add: SetAssetCache_def GetKeyAsset_def GetAssetID_def QueryRow_asset_def Query_asset_def
      filter_no_hit)

theorem SetAssetCache_unpersisted_fails_witness:
  "SetAssetCache ''asset_'' db_two_assets asset_unpersisted = (db_two_assets, Some ErrNoRows)"
proof -
  have h: "\<not> list_ex (\<lambda>r. a_address r = Some (Address asset_unpersisted) \<and>
                           a_blockchain r = Some (Blockchain asset_unpersisted)) (assetTable db_two_assets)"
    by (simp add: asset_unpersisted_def zero_Asset_def db_two_assets_def db_empty_def example_rows)
  from SetAssetCache_unpersisted_fails [OF h, of "''asset_''"] show ?thesis
    by (simp add: SetAssetCache_def GetKeyAsset_def GetAssetID_def QueryRow_asset_def Query_asset_def
        asset_unpersisted_def zero_Asset_def db_two_assets_def db_empty_def example_rows)
qed

subsection \<open>\<open>GetExchangePair\<close>\<close>

lemma GetAssetByID_decodes:
  "pg_up db \<Longrightarrow> filter (\<lambda>r. a_asset_id r = assetID) (assetTable db) = r # rs \<Longrightarrow>
   row_Asset r = Some a \<Longrightarrow> GetAssetByID db assetID = (a, None)"
  using Scan_asset5_row_Asset [of r a "[]"]
  by (auto simp: GetAssetByID_def QueryRow_asset_def Query_asset_def)

text \<open>
  Claim C7. Let the store be reachable and \<open>r\<close> be the first row of the exchangepair
  table with the exchange and the foreign name. For each of the two links of \<open>r\<close>: a
  null link contributes the zero-value asset, with no lookup and no error; a link that
  is set contributes the asset that \<open>GetAssetByID\<close> returns for it. With both links so
  resolved \<open>GetExchangePair\<close> returns the pair of the row with these two assets and no error.
\<close>

theorem GetExchangePair_null_links:
  assumes "pg_up db"
    and "filter (\<lambda>r. ep_exchange r = exchange \<and> ep_foreignname r = foreignname) (exchangepairTable db) = r # rs"
    and "case ep_id_quotetoken r of None \<Rightarrow> quote = zero_Asset | Some id1 \<Rightarrow> GetAssetByID db id1 = (quote, None)"
    and "case ep_id_basetoken r of None \<Rightarrow> base = zero_Asset | Some id2 \<Rightarrow> GetAssetByID db id2 = (base, None)"
  shows "GetExchangePair db exchange foreignname =
           (\<lparr>PairSymbol = ep_symbol r, ForeignName = foreignname, Exchange = exchange,
             Verified = ep_verified r,
             UnderlyingPair = \<lparr>QuoteToken = quote, BaseToken = base\<rparr>\<rparr>, None)"
  using assms
  by (simp add: GetExchangePair_def QueryRow_exchangepair_def zero_ExchangePair_def Let_def
      split: option.splits)

text \<open>A pair whose quote link is set and whose base link is null.\<close>

theorem GetExchangePair_null_links_witness:
  "GetExchangePair db_pairs ''Binance'' ''WBTC-USDC'' =
     (\<lparr>PairSymbol = ''WBTC'', ForeignName = ''WBTC-USDC'', Exchange = ''Binance'', Verified = True,
       UnderlyingPair = \<lparr>QuoteToken = asset_WBTC, BaseToken = zero_Asset\<rparr>\<rparr>, None)"
proof -
  have up: "pg_up db_pairs"
    by (simp add: db_pairs_def db_two_assets_def db_empty_def)
  have row: "filter (\<lambda>r. ep_exchange r = ''Binance'' \<and> ep_foreignname r = ''WBTC-USDC'')
               (exchangepairTable db_pairs) = pair_row_WBTC # []"
    by (simp add: db_pairs_def db_two_assets_def db_empty_def pair_row_WBTC_def)
  have "GetAssetByID db_pairs ''id-wbtc'' = (asset_WBTC, None)"
    by (rule GetAssetByID_decodes [OF up, of _ row_WBTC "[]"])
       (simp_all add: db_pairs_def db_two_assets_def db_empty_def example_rows)
  then have q: "case ep_id_quotetoken pair_row_WBTC of None \<Rightarrow> asset_WBTC = zero_Asset
                | Some id1 \<Rightarrow> GetAssetByID db_pairs id1 = (asset_WBTC, None)"
    by (simp add: pair_row_WBTC_def)
  have b: "case ep_id_basetoken pair_row_WBTC of None \<Rightarrow> zero_Asset = zero_Asset
           | Some id2 \<Rightarrow> GetAssetByID db_pairs id2 = (zero_Asset, None)"
    by (simp add: pair_row_WBTC_def)
  from GetExchangePair_null_links [OF up row q b] show ?thesis
    by (simp add: pair_row_WBTC_def)
qed

subsection \<open>\<open>SetExchangePair\<close>\<close>

lemma Exec_insert_exchangepair_keyed:
  "Exec_insert_exchangepair db s fn ex = (db1, None) \<Longrightarrow>
   pg_up db1 \<and> list_ex (\<lambda>r. ep_foreignname r = fn \<and> ep_exchange r = ex) (exchangepairTable db1)"
  by (auto simp: Exec_insert_exchangepair_def list_ex_iff split: if_splits)

lemma Exec_update_exchangepair_table:
  "Exec_update_exchangepair db upd v fn ex = Inr db' \<Longrightarrow>
   pg_up db' \<and>
   exchangepairTable db' =
     map (\<lambda>r. if ep_foreignname r = fn \<and> ep_exchange r = ex then upd r else r) (exchangepairTable db)"
  by (auto simp: Exec_update_exchangepair_def split: if_splits)

lemma keyed_after_update:
  assumes "list_ex (\<lambda>r. ep_foreignname r = fn \<and> ep_exchange r = ex) xs"
    and "\<And>r. ep_foreignname (upd r) = ep_foreignname r \<and> ep_exchange (upd r) = ep_exchange r"
  shows "list_ex (\<lambda>r. ep_foreignname r = fn \<and> ep_exchange r = ex)
           (map (\<lambda>r. if ep_foreignname r = fn \<and> ep_exchange r = ex then upd r else r) xs)"
  using assms by (induction xs) auto

lemma verified_after_update:
  "list_all (\<lambda>r. ep_verified r = v)
     (filter (\<lambda>r. ep_foreignname r = fn \<and> ep_exchange r = ex)
        (map (\<lambda>r. if ep_foreignname r = fn \<and> ep_exchange r = ex then r\<lparr>ep_verified := v\<rparr> else r) xs))"
  by (induction xs) auto

lemma optional_update_keyed:
  assumes "(if c then Exec_update_exchangepair db upd v fn ex else Inr db) = Inr db'"
    and "pg_up db"
    and "list_ex (\<lambda>r. ep_foreignname r = fn \<and> ep_exchange r = ex) (exchangepairTable db)"
    and "\<And>r. ep_foreignname (upd r) = ep_foreignname r \<and> ep_exchange (upd r) = ep_exchange r"
  shows "pg_up db' \<and> list_ex (\<lambda>r. ep_foreignname r = fn \<and> ep_exchange r = ex) (exchangepairTable db')"
proof (cases c)
  case True
  with assms(1) have "Exec_update_exchangepair db upd v fn ex = Inr db'" by simp
  from Exec_update_exchangepair_table [OF this] keyed_after_update [OF assms(3), of upd] assms(4)
  show ?thesis by simp
next
  case False
  with assms show ?thesis by simp
qed

lemma SetExchangePairCache_table:
  "exchangepairTable (fst (SetExchangePairCache k db ex pair)) = exchangepairTable db"
  by (simp add: SetExchangePairCache_def redis_Set_def)

text \<open>
  Claim C9. Let the foreign name of the pair and the exchange hold no single quote, and
  let \<open>SetExchangePair\<close> return no error. Then the store it leaves has a row with that
  foreign name and exchange, and every such row has the pair's \<open>Verified\<close> as its
  verified flag, whatever the flag was before: the update of the flag is the last
  statement of every call that succeeds, so a call with \<open>Verified = false\<close> takes the
  verification of a verified pair away.
\<close>

theorem SetExchangePair_sets_verified:
  assumes "sql_plain (ForeignName pair)" and "sql_plain exchange"
    and "SetExchangePair keyExchangePairCache db exchange pair cache = Some (db', None)"
  shows "list_ex (\<lambda>r. ep_foreignname r = ForeignName pair \<and> ep_exchange r = exchange)
           (exchangepairTable db') \<and>
         list_all (\<lambda>r. ep_verified r = Verified pair)
           (filter (\<lambda>r. ep_foreignname r = ForeignName pair \<and> ep_exchange r = exchange)
              (exchangepairTable db'))"
proof -
  let ?fn = "ForeignName pair"
  let ?key = "\<lambda>r. ep_foreignname r = ?fn \<and> ep_exchange r = exchange"
  from assms(3) obtain db1 where
    i: "Exec_insert_exchangepair db (PairSymbol pair) ?fn exchange = (db1, None)"
    by (auto simp: SetExchangePair_def split: prod.splits option.splits)
  define bid where "bid = fst (GetAssetID db1 (BaseToken (UnderlyingPair pair)))"
  define qid where "qid = fst (GetAssetID db1 (QuoteToken (UnderlyingPair pair)))"
  from assms(3) i obtain db2 where
    b: "(if bid \<noteq> [] then Exec_update_exchangepair db1 (\<lambda>r. r\<lparr>ep_id_basetoken := Some bid\<rparr>) bid ?fn exchange
         else Inr db1) = Inr db2"
    unfolding SetExchangePair_def bid_def
    by (simp add: Let_def split: sum.splits query_error.splits)
  from assms(3) i b obtain db3 where
    q: "(if qid \<noteq> [] then Exec_update_exchangepair db2 (\<lambda>r. r\<lparr>ep_id_quotetoken := Some qid\<rparr>) qid ?fn exchange
         else Inr db2) = Inr db3"
    unfolding SetExchangePair_def bid_def qid_def
    by (simp add: Let_def split: sum.splits query_error.splits)
  from assms(3) i b q obtain db4 where
    v: "Exec_update_exchangepair db3 (\<lambda>r. r\<lparr>ep_verified := Verified pair\<rparr>)
          (fmt_bool (Verified pair)) ?fn exchange = Inr db4"
    and t: "exchangepairTable db' = exchangepairTable db4"
    unfolding SetExchangePair_def bid_def qid_def
    by (auto simp: Let_def SetExchangePairCache_table split: sum.splits query_error.splits if_splits)
  from Exec_insert_exchangepair_keyed [OF i] have k1: "pg_up db1" "list_ex ?key (exchangepairTable db1)"
    by simp_all
  from optional_update_keyed [OF b k1] have k2: "pg_up db2" "list_ex ?key (exchangepairTable db2)"
    by simp_all
  from optional_update_keyed [OF q k2] have k3: "pg_up db3" "list_ex ?key (exchangepairTable db3)"
    by simp_all
  from Exec_update_exchangepair_table [OF v]
  have t4: "exchangepairTable db4 =
              map (\<lambda>r. if ?key r then r\<lparr>ep_verified := Verified pair\<rparr> else r) (exchangepairTable db3)"
    by simp
  have "list_ex ?key (exchangepairTable db4)"
    unfolding t4 by (rule keyed_after_update [OF k3(2)]) simp
  moreover have "list_all (\<lambda>r. ep_verified r = Verified pair) (filter ?key (exchangepairTable db4))"
    unfolding t4 by (rule verified_after_update)
  ultimately show ?thesis by (simp add: t)
qed

text \<open>
  The verified pair \<open>WBTC-USDC\<close> on \<open>Binance\<close>, set again with \<open>Verified = false\<close>: the
  row is there as before, its links kept, and no longer verified.
\<close>

lemma SetExchangePair_unverifies:
  "SetExchangePair ''exchangepair_'' db_pairs ''Binance'' pair_unverified False =
     Some (db_pairs_unverified, None)"
  by (simp add: SetExchangePair_def Exec_insert_exchangepair_def Exec_update_exchangepair_def
      GetAssetID_def QueryRow_asset_def Query_asset_def sql_plain_def fmt_bool_def
      pair_unverified_def zero_ExchangePair_def zero_Asset_def
      db_pairs_def db_pairs_unverified_def db_two_assets_def db_empty_def pair_row_WBTC_def example_rows)

theorem SetExchangePair_sets_verified_witness:
  "sql_plain (ForeignName pair_unverified) \<and> sql_plain ''Binance'' \<and>
   ep_verified pair_row_WBTC \<and>
   SetExchangePair ''exchangepair_'' db_pairs ''Binance'' pair_unverified False =
     Some (db_pairs_unverified, None) \<and>
   exchangepairTable db_pairs_unverified = [pair_row_WBTC\<lparr>ep_verified := False\<rparr>]"
proof -
  have p: "sql_plain (ForeignName pair_unverified)" "sql_plain ''Binance''"
    by (simp_all add: sql_plain_def pair_unverified_def zero_ExchangePair_def)
  from SetExchangePair_sets_verified [OF p SetExchangePair_unverifies] p SetExchangePair_unverifies
  show ?thesis
    by (simp add: db_pairs_unverified_def db_two_assets_def db_empty_def pair_row_WBTC_def)
qed

subsection \<open>\<open>GetAssetsWithVOLInflux\<close>\<close>

lemma set_first_seen: "set (first_seen xs) = set xs"
  by (induction xs rule: first_seen.induct) auto

lemma distinct_first_seen: "distinct (first_seen xs)"
  by (induction xs rule: first_seen.induct) (auto simp: set_first_seen)

lemma removeAll_filter_new:
  "removeAll x (filter (\<lambda>y. y \<notin> set qa) xs) = filter (\<lambda>y. y \<notin> set (qa @ [x])) xs"
  by (induction xs) auto

text \<open>
  The loop, started with the map holding what the list holds and with an \<open>asset\<close> whose
  other fields are default, appends the pairs not yet in the list, each where first seen.
\<close>

lemma GetAssetsWithVOLInflux_loop_first_seen:
  "list_all row_wellformed vals \<Longrightarrow> Symbol asset = [] \<Longrightarrow> Name asset = [] \<Longrightarrow> Decimals asset = 0 \<Longrightarrow>
   GetAssetsWithVOLInflux_loop vals asset qa (set qa) =
     (qa @ first_seen (filter (\<lambda>y. y \<notin> set qa) (List.map_filter row_pair vals)), None)"
proof (induction vals arbitrary: asset qa)
  case Nil
  then show ?case by simp
next
  case (Cons val vals)
  from Cons.prems have wf: "row_wellformed val" and rest: "list_all row_wellformed vals" by simp_all
  note IH = Cons.IH [OF rest]
  from wf have len: "\<not> length val \<le> 1" "\<not> length val \<le> 2" by (simp_all add: row_wellformed_def)
  show ?case
  proof (cases "val ! 1")
    case JNil
    then have "row_pair val = None" by (simp add: row_pair_def)
    with JNil len IH [OF Cons.prems(2-4)] show ?thesis by simp
  next
    case (JString addr)
    note a = this
    show ?thesis
    proof (cases "val ! 2")
      case JNil
      with a have "row_pair val = None" by (simp add: row_pair_def)
      with JNil a len IH [OF Cons.prems(2-4)] show ?thesis by simp
    next
      case (JString chain)
      let ?a = "asset\<lparr>Address := addr, Blockchain := chain\<rparr>"
      have z: "?a = zero_Asset\<lparr>Address := addr, Blockchain := chain\<rparr>"
        using Cons.prems(2-4) by (simp add: zero_Asset_def)
      have p: "row_pair val = Some ?a" using a JString z by (simp add: row_pair_def)
      have inv: "Symbol ?a = []" "Name ?a = []" "Decimals ?a = 0" using Cons.prems(2-4) by simp_all
      show ?thesis
      proof (cases "?a \<in> set qa")
        case True
        with a JString len p IH [OF inv, of qa] show ?thesis by (simp add: Let_def)
      next
        case False
        have "GetAssetsWithVOLInflux_loop (val # vals) asset qa (set qa) =
              GetAssetsWithVOLInflux_loop vals ?a (qa @ [?a]) (set (qa @ [?a]))"
          using a JString len False by (simp add: Let_def)
        also have "\<dots> = ((qa @ [?a]) @
            first_seen (filter (\<lambda>y. y \<notin> set (qa @ [?a])) (List.map_filter row_pair vals)), None)"
          by (rule IH [OF inv])
        finally show ?thesis
          using False p by (simp add: removeAll_filter_new)
      qed
    next
      case (JNumber n)
      with wf show ?thesis by (simp add: row_wellformed_def)
    next
      case (JBool b)
      with wf show ?thesis by (simp add: row_wellformed_def)
    qed
  next
    case (JNumber n)
    with wf show ?thesis by (simp add: row_wellformed_def)
  next
    case (JBool b)
    with wf show ?thesis by (simp add: row_wellformed_def)
  qed
qed

text \<open>
  Claim C6. Let the query to the time-series store succeed with the answer \<open>res\<close>. With
  no result or no series in the first result, and with no values in its first series,
  \<open>GetAssetsWithVOLInflux\<close> returns no asset and an error made for the occasion (two
  messages, one per case). Otherwise, the rows of the first series being well formed,
  it returns with no error the pairs of address and blockchain that the rows denote,
  deduplicated in first-seen order.
\<close>

theorem GetAssetsWithVOLInflux_absence_is_error:
  assumes "queryInfluxDB (VOLInflux_query influxDbFiltersTable timeInit) = (res, None)"
  shows "(res = [] \<or> Series (res ! 0) = [] \<longrightarrow>
            GetAssetsWithVOLInflux queryInfluxDB influxDbFiltersTable timeInit =
              ([], Some (ErrorsNew ''no recent asset with volume in influx''))) \<and>
         (res \<noteq> [] \<and> Series (res ! 0) \<noteq> [] \<and> Values (Series (res ! 0) ! 0) = [] \<longrightarrow>
            GetAssetsWithVOLInflux queryInfluxDB influxDbFiltersTable timeInit =
              ([], Some (ErrorsNew ''no recent assets with volume in influx''))) \<and>
         (res \<noteq> [] \<and> Series (res ! 0) \<noteq> [] \<and> Values (Series (res ! 0) ! 0) \<noteq> [] \<and>
          list_all row_wellformed (Values (Series (res ! 0) ! 0)) \<longrightarrow>
            GetAssetsWithVOLInflux queryInfluxDB influxDbFiltersTable timeInit =
              (first_seen (List.map_filter row_pair (Values (Series (res ! 0) ! 0))), None))"
proof -
  have "list_all row_wellformed vals \<Longrightarrow>
        GetAssetsWithVOLInflux_loop vals zero_Asset [] {} =
          (first_seen (List.map_filter row_pair vals), None)" for vals
    using GetAssetsWithVOLInflux_loop_first_seen [of vals zero_Asset "[]"]
    by (simp add: zero_Asset_def)
  with assms show ?thesis
    by (auto simp: GetAssetsWithVOLInflux_def Let_def)
qed

text \<open>
  A series of four rows, the third with a null address and the fourth repeating the
  first; and an answer with no series.
\<close>

theorem GetAssetsWithVOLInflux_absence_is_error_witness:
  "GetAssetsWithVOLInflux influx_example ''filters'' 0 =
     ([zero_Asset\<lparr>Address := ''0xabc'', Blockchain := ''Ethereum''\<rparr>,
       zero_Asset\<lparr>Address := ''0xdef'', Blockchain := ''Ethereum''\<rparr>], None) \<and>
   GetAssetsWithVOLInflux influx_no_series ''filters'' 0 =
     ([], Some (ErrorsNew ''no recent asset with volume in influx''))"
proof -
  have h1: "influx_example (VOLInflux_query ''filters'' 0) = ([\<lparr>Series = [\<lparr>Values = series_example\<rparr>]\<rparr>], None)"
    by (simp add: influx_example_def)
  have h2: "influx_no_series (VOLInflux_query ''filters'' 0) = ([\<lparr>Series = []\<rparr>], None)"
    by (simp add: influx_no_series_def)
  from GetAssetsWithVOLInflux_absence_is_error [where queryInfluxDB = influx_example, OF h1]
    GetAssetsWithVOLInflux_absence_is_error [where queryInfluxDB = influx_no_series, OF h2]
  show ?thesis
    by (simp add: series_example_def row_wellformed_def row_pair_def zero_Asset_def)
qed

subsection \<open>\<open>GetPage\<close>\<close>

lemma RawValues_fresh: "RawValues (fst (Query_asset_page db limit offset)) = []"
  by (simp add: Query_asset_page_def RawValues_def)

text \<open>
  Claim C2. \<open>GetPage\<close> never reports a next page, on any store, for any page number
  and whatever the driver makes of the decimals column: \<open>hasNextPage\<close> is false also
  where a non-empty next page exists. The first test compares the number of columns of
  the row read last with the page size, not the number of rows. Where it lets the call
  through, the probe at \<open>skip + 1\<close> is issued, and the second test reads \<open>RawValues\<close> of
  a result set on which \<open>Next\<close> was never called, which is empty whatever the result set
  holds.
\<close>

theorem GetPage_hasNextPage_never:
  "fst (snd (GetPage scan_uint8 db pageNumber)) = False"
  using RawValues_fresh [of db "rdb_pagesize db" "rdb_pagesize db * pageNumber + 1"]
  by (auto simp: GetPage_def Let_def split: prod.splits option.splits)

text \<open>
  At a store of two assets and a page size of one, page 0 is full and page 1 holds the
  second asset. On the text column the scan of the first row fails, and \<open>GetPage\<close>
  returns at once, before either test: no asset, \<open>hasNextPage = false\<close> and the scan
  error, for page 0 as for page 1. Past the last row the page is empty and the call
  returns no error.
\<close>

lemma GetPage_text_column_example:
  "GetPage scan_uint8_text_column db_two_assets 0 = ([], False, Some ScanArgError) \<and>
   GetPage scan_uint8_text_column db_two_assets 1 = ([], False, Some ScanArgError) \<and>
   GetPage scan_uint8_text_column db_two_assets 2 = ([], False, None)"
  by (simp add: GetPage_def Query_asset_page_def db_two_assets_def db_empty_def
      GetPage_loop.simps Rows_Next_def Scan_page_def scan_uint8_text_column_def RawValues_def
      example_rows)

end
